theory Spec2Isabelle
  imports Complex_Main "HOL-Library.Sublist"
begin

section \<open>Conventions of the embedding\<close>

text \<open>
  The Python sources of ARIA are embedded function by function.
  \<^item> Python floats are read as real numbers; every constant of the source
    (\<open>0.5\<close>, \<open>1.5\<close>, \<open>0.3\<close>, \<open>0.05\<close>, ...) is the real number it denotes.
  \<^item> Python ints are \<open>int\<close>, so that \<open>positive_count - negative_count\<close> can be negative.
  \<^item> A text is a \<open>string\<close>; \<open>str.lower\<close> maps the letters \<open>A\<close>..\<open>Z\<close> to
    \<open>a\<close>..\<open>z\<close> and leaves every other character alone.
  \<^item> \<open>w in t\<close> on strings is \<^const>\<open>sublist\<close>: \<open>w\<close> occurs as a contiguous
    run of \<open>t\<close>.
  \<^item> An exception is a value of type \<open>error\<close>; a function that can raise returns
    \<open>error + 'a\<close> with \<open>Inl\<close> for the raised exception.
\<close>

datatype error =
    NameError string     \<comment> \<open>a global name that the module never binds\<close>
  | NetworkXError string  \<comment> \<open>networkx: the node is not in the graph\<close>
  | CollaboratorError string  \<comment> \<open>any exception raised inside an external collaborator\<close>

text \<open>
  Evaluating a global name inside a module: Python looks it up among the module's
  global names (none of the names below is a builtin) and raises \<open>NameError\<close> when the
  module never bound it. So \<open>datetime.now()\<close> raises in a module that does not import
  \<open>datetime\<close>; otherwise the call returns the current time.
\<close>

type_synonym timestamp = nat

definition global_name :: "string list \<Rightarrow> string \<Rightarrow> error + unit" where
  "global_name module_globals name =
     (if name \<in> set module_globals then Inr () else Inl (NameError name))"

definition datetime_now :: "string list \<Rightarrow> timestamp \<Rightarrow> error + timestamp" where
  "datetime_now module_globals clock =
     (if ''datetime'' \<in> set module_globals then Inr clock else Inl (NameError ''datetime''))"

definition lower_char :: "char \<Rightarrow> char" where
  "lower_char c =
     (let n = (of_char c :: nat) in if 65 \<le> n \<and> n \<le> 90 then char_of (n + 32) else c)"

definition lower :: "string \<Rightarrow> string" where
  "lower s = map lower_char s"

text \<open>\<open>sum(1 for w in ws if w in t)\<close>, the counting idiom of both analyzers.\<close>

definition count_hits :: "string list \<Rightarrow> string \<Rightarrow> int" where
  "count_hits ws t = (\<Sum>w\<leftarrow>filter (\<lambda>w. sublist w t) ws. 1)"

text \<open>
  \<open>str(x)\<close> for a float \<open>x\<close> whose value is a non-negative whole number below
  \<open>10^16\<close>: the decimal digits followed by \<open>.0\<close>. These are the only floats the
  source ever formats into a tag.
\<close>

fun digit_char :: "nat \<Rightarrow> char" where
  "digit_char n = char_of (48 + n mod 10)"

function str_nat :: "nat \<Rightarrow> string" where
  "str_nat n = (if n < 10 then [digit_char n] else str_nat (n div 10) @ [digit_char n])"
  by pat_completeness auto
termination
  by (relation "measure id") auto

definition str_float :: "real \<Rightarrow> string" where
  "str_float x = str_nat (nat \<lfloor>x\<rfloor>) @ ''.0''"

section \<open>models.py\<close>

datatype conversation_mode = COMPANION | THERAPEUTIC | CRISIS | ASSESSMENT | COACHING

datatype personality_trait =
    OPENNESS | CONSCIENTIOUSNESS | EXTRAVERSION | AGREEABLENESS
  | NEUROTICISM | EMPATHY | OPTIMISM | EMOTIONAL_STABILITY

record personality_profile =
  big_five :: "personality_trait \<rightharpoonup> real"
  therapeutic_traits :: "string \<rightharpoonup> real"
  communication_preferences :: "string \<rightharpoonup> real"
  emotional_patterns :: "string list"
  adaptation_history :: "string list"
  confidence_score :: real
  last_updated :: timestamp

record therapeutic_assessment =
  mood_score :: real
  anxiety_level :: real
  stress_indicators :: "string list"
  coping_strategies :: "string list"
  risk_factors :: "string list"
  protective_factors :: "string list"
  therapeutic_goals :: "string list"
  progress_metrics :: "string \<rightharpoonup> real"

record seal_edit =
  edit_id :: string
  edit_type :: string
  target_component :: string
  synthetic_data :: "(string \<times> string) list list"
  hyperparameters :: "(string \<times> string) list"
  effectiveness_score :: real
  implementation_count :: int
  created_at :: timestamp

text \<open>
  One entry of \<open>conversation_history\<close>, a dictionary with the keys \<open>role\<close> and
  \<open>content\<close> as the memory system builds it.
\<close>

record history_message =
  role :: string
  content :: string

text \<open>
  \<open>memory_context\<close> is a dictionary of nested dictionaries; the code reads two paths
  of it, each with a default for a missing key. \<open>None\<close> stands for the missing key.
\<close>

record memory_context =
  total_sessions :: "int option"  \<comment> \<open>\<open>["user_patterns"]["total_sessions"]\<close>\<close>
  relationship_strength :: "real option"
    \<comment> \<open>\<open>["relationship_context"]["relationship_strength"]\<close>\<close>

record aria_state =
  user_id :: string
  session_id :: string
  current_message :: string
  conversation_history :: "history_message list"
  personality_profile :: personality_profile
  therapeutic_assessment :: therapeutic_assessment
  conversation_mode :: conversation_mode
  context_vectors :: "real list"
  memory_context :: memory_context
  seal_adaptations :: "seal_edit list"
  graph_context :: "(string \<times> string) list"  \<comment> \<open>a dictionary, \<open>{}\<close> is \<open>[]\<close>\<close>
  response :: string
  confidence :: real
  next_action :: string

text \<open>
  \<open>PersonalityProfile()\<close> and \<open>TherapeuticAssessment()\<close>, the dataclass defaults (the
  default \<open>last_updated\<close> is the time of construction, set by the caller).
\<close>

definition default_profile :: personality_profile where
  "default_profile =
     \<lparr>big_five = Map.empty, therapeutic_traits = Map.empty,
      communication_preferences = Map.empty, emotional_patterns = [],
      adaptation_history = [], confidence_score = 0.0, last_updated = 0\<rparr>"

definition default_assessment :: therapeutic_assessment where
  "default_assessment =
     \<lparr>mood_score = 5.0, anxiety_level = 5.0, stress_indicators = [], coping_strategies = [],
      risk_factors = [], protective_factors = [], therapeutic_goals = [],
      progress_metrics = Map.empty\<rparr>"

section \<open>analyzers/therapeutic\_analyzer.py\<close>

definition mood_indicators_positive :: "string list" where
  "mood_indicators_positive =
     [''happy'', ''great'', ''wonderful'', ''excellent'', ''fantastic'', ''amazing'']"

definition mood_indicators_negative :: "string list" where
  "mood_indicators_negative =
     [''sad'', ''down'', ''terrible'', ''awful'', ''horrible'', ''depressed'']"

definition anxiety_indicators :: "string list" where
  "anxiety_indicators =
     [''anxious'', ''worried'', ''panic'', ''nervous'', ''scared'', ''frightened'',
      ''overwhelmed'', ''stressed'', ''tense'', ''restless'']"

definition crisis_indicators :: "string list" where
  "crisis_indicators =
     [''suicide'', ''kill myself'', ''end it all'', ''can't go on'',
      ''hopeless'', ''want to die'', ''better off dead'', ''no point'', ''give up'']"

definition coping_strategy_table :: "(string \<times> string list) list" where
  "coping_strategy_table =
     [(''cognitive'', [''reframe'', ''perspective'', ''think differently'', ''challenge thoughts'']),
      (''behavioral'', [''exercise'', ''walk'', ''breathe'', ''relax'', ''activity'']),
      (''social'', [''talk'', ''friends'', ''family'', ''support'', ''help'']),
      (''mindfulness'', [''meditate'', ''mindful'', ''present'', ''aware'', ''focus''])]"

definition assess_mood :: "string \<Rightarrow> real" where
  "assess_mood text =
     (let text_lower = lower text;
          positive_count = count_hits mood_indicators_positive text_lower;
          negative_count = count_hits mood_indicators_negative text_lower;
          mood_adjustment = real_of_int (positive_count - negative_count) * 0.5;
          mood_score = 5.0 + mood_adjustment
      in max 1.0 (min 10.0 mood_score))"

definition assess_anxiety :: "string \<Rightarrow> real" where
  "assess_anxiety text =
     (let text_lower = lower text;
          anxiety_count = count_hits anxiety_indicators text_lower;
          anxiety_score = 3.0 + real_of_int anxiety_count * 1.5
      in max 1.0 (min 10.0 anxiety_score))"

definition detect_crisis :: "string \<Rightarrow> bool \<times> real" where
  "detect_crisis text =
     (let text_lower = lower text;
          crisis_count = count_hits crisis_indicators text_lower;
          is_crisis = (crisis_count > 0);
          risk_level = min (real_of_int crisis_count * 2.0) 10.0
      in (is_crisis, risk_level))"

definition identify_coping_strategies :: "string \<Rightarrow> string list" where
  "identify_coping_strategies text =
     (let text_lower = lower text
      in concat (map (\<lambda>(category, strategies).
                        map (\<lambda>strategy. category @ '': '' @ strategy)
                            (filter (\<lambda>strategy. sublist strategy text_lower) strategies))
                     coping_strategy_table))"

text \<open>
  The loop \<open>for strategy in coping_strategies: if strategy not in xs: xs.append(strategy)\<close>.
\<close>

fun append_missing :: "string list \<Rightarrow> string list \<Rightarrow> string list" where
  "append_missing xs [] = xs"
| "append_missing xs (s # ss) =
     append_missing (if s \<in> set xs then xs else xs @ [s]) ss"

definition update_therapeutic_assessment ::
  "therapeutic_assessment \<Rightarrow> string \<Rightarrow> therapeutic_assessment" where
  "update_therapeutic_assessment current_assessment new_text =
     (let new_mood = assess_mood new_text;
          new_anxiety = assess_anxiety new_text;
          (is_crisis, risk_level) = detect_crisis new_text;
          found = identify_coping_strategies new_text;
          alpha = 0.3;
          a1 = current_assessment\<lparr>mood_score :=
                 (1 - alpha) * mood_score current_assessment + alpha * new_mood\<rparr>;
          a2 = a1\<lparr>anxiety_level :=
                 (1 - alpha) * anxiety_level a1 + alpha * new_anxiety\<rparr>;
          a3 = a2\<lparr>coping_strategies := append_missing (coping_strategies a2) found\<rparr>
      in if is_crisis
         then a3\<lparr>risk_factors :=
                risk_factors a3 @ [''Crisis indicators detected: '' @ str_float risk_level]\<rparr>
         else a3)"

text \<open>
  The same method over any crisis detector: \<open>self.detect_crisis\<close> is called at line 64,
  after the mood and the anxiety of the text are assessed and before anything is
  written, and nothing catches what it raises. With \<^const>\<open>detect_crisis\<close> itself this
  is \<^const>\<open>update_therapeutic_assessment\<close>.
\<close>

definition update_therapeutic_assessment_with ::
  "(string \<Rightarrow> error + bool \<times> real) \<Rightarrow> therapeutic_assessment \<Rightarrow> string
     \<Rightarrow> error + therapeutic_assessment" where
  "update_therapeutic_assessment_with detector current_assessment new_text =
     (let new_mood = assess_mood new_text;
          new_anxiety = assess_anxiety new_text
      in case detector new_text of
           Inl err \<Rightarrow> Inl err
         | Inr (is_crisis, risk_level) \<Rightarrow>
             (let found = identify_coping_strategies new_text;
                  alpha = 0.3;
                  a1 = current_assessment\<lparr>mood_score :=
                         (1 - alpha) * mood_score current_assessment + alpha * new_mood\<rparr>;
                  a2 = a1\<lparr>anxiety_level :=
                         (1 - alpha) * anxiety_level a1 + alpha * new_anxiety\<rparr>;
                  a3 = a2\<lparr>coping_strategies := append_missing (coping_strategies a2) found\<rparr>
              in Inr (if is_crisis
                      then a3\<lparr>risk_factors :=
                             risk_factors a3
                               @ [''Crisis indicators detected: '' @ str_float risk_level]\<rparr>
                      else a3)))"

section \<open>analyzers/personality\_analyzer.py\<close>

text \<open>
  The names the module binds: its four import lines and the class it defines.
  \<open>datetime\<close> is not among them.
\<close>

definition personality_analyzer_globals :: "string list" where
  "personality_analyzer_globals =
     [''np'', ''Dict'', ''PersonalityProfile'', ''PersonalityTrait'', ''logger'',
      ''PersonalityAnalyzer'']"

definition personality_keywords :: "(personality_trait \<times> string list) list" where
  "personality_keywords =
     [(OPENNESS, [''creative'', ''curious'', ''open-minded'', ''imaginative'', ''artistic'']),
      (CONSCIENTIOUSNESS,
         [''organized'', ''responsible'', ''reliable'', ''disciplined'', ''thorough'']),
      (EXTRAVERSION, [''outgoing'', ''social'', ''talkative'', ''energetic'', ''assertive'']),
      (AGREEABLENESS, [''kind'', ''cooperative'', ''trusting'', ''helpful'', ''sympathetic'']),
      (NEUROTICISM, [''anxious'', ''worried'', ''stressed'', ''emotional'', ''sensitive'']),
      (EMPATHY, [''understanding'', ''compassionate'', ''caring'', ''supportive'']),
      (OPTIMISM, [''positive'', ''hopeful'', ''confident'', ''enthusiastic''])]"

definition communication_patterns :: "(string \<times> string list) list" where
  "communication_patterns =
     [(''formal'', [''please'', ''thank you'', ''would you'', ''could you'', ''appreciate'']),
      (''casual'', [''hey'', ''yeah'', ''cool'', ''awesome'', ''no problem'']),
      (''emotional'', [''feel'', ''emotion'', ''heart'', ''soul'', ''deeply'']),
      (''analytical'', [''think'', ''analyze'', ''consider'', ''evaluate'', ''logical''])]"

text \<open>
  \<open>np.random.normal(0, 0.1)\<close> is drawn once per trait; \<open>noise trait\<close> is the value
  drawn while that trait is scored.
\<close>

definition analyze_text_for_personality ::
  "(personality_trait \<Rightarrow> real) \<Rightarrow> string \<Rightarrow> (personality_trait \<times> real) list" where
  "analyze_text_for_personality noise text =
     (let text_lower = lower text
      in map (\<lambda>(trait, keywords).
                let matches = count_hits keywords text_lower;
                    score = min (real_of_int matches / max (real (length keywords) * 0.3) 1) 1.0;
                    score = score + noise trait;
                    score = max 0.0 (min 1.0 score)
                in (trait, score))
             personality_keywords)"

definition detect_communication_style :: "string \<Rightarrow> (string \<times> real) list" where
  "detect_communication_style text =
     (let text_lower = lower text
      in map (\<lambda>(style, keywords).
                (style, real_of_int (count_hits keywords text_lower) / real (length keywords)))
             communication_patterns)"

text \<open>
  The two \<open>for\<close> statements of the update: a key already in the dictionary is smoothed,
  a new key is assigned.
\<close>

fun smooth_into :: "real \<Rightarrow> ('k \<rightharpoonup> real) \<Rightarrow> ('k \<times> real) list \<Rightarrow> ('k \<rightharpoonup> real)" where
  "smooth_into alpha m [] = m"
| "smooth_into alpha m ((k, new_score) # rest) =
     smooth_into alpha
       (case m k of
          Some old \<Rightarrow> m(k \<mapsto> (1 - alpha) * old + alpha * new_score)
        | None \<Rightarrow> m(k \<mapsto> new_score))
       rest"

text \<open>Lines 46 to 69: everything the function does before it touches \<open>last_updated\<close>.\<close>

definition smoothed_profile ::
  "(personality_trait \<Rightarrow> real) \<Rightarrow> personality_profile \<Rightarrow> string \<Rightarrow> personality_profile" where
  "smoothed_profile noise current_profile new_text =
     (let new_traits = analyze_text_for_personality noise new_text;
          new_comm_style = detect_communication_style new_text;
          alpha = 0.1;
          p1 = current_profile\<lparr>big_five := smooth_into alpha (big_five current_profile) new_traits\<rparr>;
          p2 = p1\<lparr>communication_preferences :=
                  smooth_into alpha (communication_preferences p1) new_comm_style\<rparr>
      in p2\<lparr>confidence_score := min (confidence_score p2 + 0.05) 1.0\<rparr>)"

definition update_personality_profile ::
  "timestamp \<Rightarrow> (personality_trait \<Rightarrow> real) \<Rightarrow> personality_profile \<Rightarrow> string
     \<Rightarrow> error + personality_profile" where
  "update_personality_profile clock noise current_profile new_text =
     (let p = smoothed_profile noise current_profile new_text
      in case datetime_now personality_analyzer_globals clock of
           Inl e \<Rightarrow> Inl e
         | Inr now \<Rightarrow> Inr (p\<lparr>last_updated := now\<rparr>))"

section \<open>graph/conversation\_graph.py\<close>

text \<open>\<open>any(w in t for w in ws)\<close>.\<close>

definition any_in :: "string list \<Rightarrow> string \<Rightarrow> bool" where
  "any_in ws t = list_ex (\<lambda>w. sublist w t) ws"

definition states :: "string list" where
  "states =
     [''initial'', ''greeting'', ''personality_assessment'', ''mood_check'',
      ''therapeutic_mode'', ''crisis_intervention'', ''companion_mode'',
      ''coaching_mode'', ''assessment_mode'', ''closure'', ''follow_up'']"

text \<open>Source, target and the \<open>condition\<close> attribute of each edge, in the order added.\<close>

definition transitions :: "(string \<times> string \<times> string) list" where
  "transitions =
     [(''initial'', ''greeting'', ''first_message''),
      (''greeting'', ''personality_assessment'', ''new_user''),
      (''greeting'', ''mood_check'', ''returning_user''),
      (''personality_assessment'', ''mood_check'', ''assessment_complete''),
      (''mood_check'', ''therapeutic_mode'', ''distress_detected''),
      (''mood_check'', ''companion_mode'', ''neutral_mood''),
      (''mood_check'', ''crisis_intervention'', ''crisis_detected''),
      (''therapeutic_mode'', ''coaching_mode'', ''progress_made''),
      (''therapeutic_mode'', ''crisis_intervention'', ''crisis_escalation''),
      (''companion_mode'', ''therapeutic_mode'', ''support_needed''),
      (''crisis_intervention'', ''therapeutic_mode'', ''crisis_resolved''),
      (''coaching_mode'', ''companion_mode'', ''goal_achieved''),
      (''assessment_mode'', ''therapeutic_mode'', ''issues_identified''),
      (''therapeutic_mode'', ''follow_up'', ''session_end''),
      (''companion_mode'', ''closure'', ''conversation_end''),
      (''coaching_mode'', ''closure'', ''coaching_complete'')]"

text \<open>
  \<open>flow_graph.successors(n)\<close>: the targets of the edges leaving \<open>n\<close>, in the order the
  edges were added (no pair of nodes is joined twice); networkx raises for a node that
  is not in the graph. Each successor comes with its edge's condition,
  \<open>flow_graph[n][m].get("condition", "default")\<close>.
\<close>

definition successors :: "string \<Rightarrow> error + (string \<times> string) list" where
  "successors current_state =
     (if current_state \<in> set states
      then Inr (map snd (filter (\<lambda>(source, target, condition). source = current_state)
                                transitions))
      else Inl (NetworkXError current_state))"

definition conditions :: "(string \<times> (aria_state \<Rightarrow> bool)) list" where
  "conditions =
     [(''first_message'', \<lambda>context. length (conversation_history context) = 0),
      (''new_user'', \<lambda>context. confidence_score (personality_profile context) < 0.3),
      (''returning_user'', \<lambda>context. confidence_score (personality_profile context) \<ge> 0.3),
      (''assessment_complete'',
         \<lambda>context. confidence_score (personality_profile context) \<ge> 0.7),
      (''distress_detected'',
         \<lambda>context. mood_score (therapeutic_assessment context) < 4.0
                  \<or> anxiety_level (therapeutic_assessment context) > 7.0),
      (''neutral_mood'',
         \<lambda>context. 4.0 \<le> mood_score (therapeutic_assessment context)
                  \<and> mood_score (therapeutic_assessment context) \<le> 7.0
                  \<and> anxiety_level (therapeutic_assessment context) \<le> 7.0),
      (''crisis_detected'', \<lambda>context. conversation_mode context = CRISIS),
      (''progress_made'', \<lambda>context. mood_score (therapeutic_assessment context) > 6.0),
      (''crisis_escalation'',
         \<lambda>context. length (risk_factors (therapeutic_assessment context)) > 0),
      (''support_needed'',
         \<lambda>context. any_in [''help'', ''support'', ''struggling'', ''difficult'']
                          (lower (current_message context))),
      (''crisis_resolved'',
         \<lambda>context. mood_score (therapeutic_assessment context) > 5.0
                  \<and> length (risk_factors (therapeutic_assessment context)) = 0),
      (''goal_achieved'',
         \<lambda>context. length (therapeutic_goals (therapeutic_assessment context)) > 0),
      (''issues_identified'',
         \<lambda>context. length (stress_indicators (therapeutic_assessment context)) > 0),
      (''session_end'', \<lambda>context. length (conversation_history context) > 20),
      (''conversation_end'', \<lambda>context. sublist ''goodbye'' (lower (current_message context))),
      (''coaching_complete'', \<lambda>context. confidence context > 0.8)]"

definition evaluate_transition_condition :: "string \<Rightarrow> aria_state \<Rightarrow> bool" where
  "evaluate_transition_condition condition context =
     (case map_of conditions condition of
        Some condition_func \<Rightarrow> condition_func context
      | None \<Rightarrow> True)"

text \<open>The \<open>for\<close> loop of \<open>get_next_state\<close>: the first successor whose guard holds.\<close>

fun first_match :: "string \<Rightarrow> aria_state \<Rightarrow> (string \<times> string) list \<Rightarrow> string" where
  "first_match current_state context [] = current_state"
| "first_match current_state context ((next_state, condition) # rest) =
     (if evaluate_transition_condition condition context then next_state
      else first_match current_state context rest)"

definition get_next_state :: "string \<Rightarrow> aria_state \<Rightarrow> error + string" where
  "get_next_state current_state context =
     (case successors current_state of
        Inl e \<Rightarrow> Inl e
      | Inr possible_states \<Rightarrow>
          if possible_states = [] then Inr current_state
          else Inr (first_match current_state context possible_states))"

definition get_therapeutic_prompt :: "aria_state \<Rightarrow> string" where
  "get_therapeutic_prompt context =
     (let mood = mood_score (therapeutic_assessment context);
          anxiety = anxiety_level (therapeutic_assessment context)
      in if mood < 3.0 then
           ''I can sense you're going through a really tough time. Depression can feel overwhelming, but you don't have to face this alone. What's been weighing on you most heavily?''
         else if anxiety > 8.0 then
           ''It sounds like you're experiencing a lot of anxiety right now. Let's try to work through this together. Can you tell me what's making you feel most anxious?''
         else if mood < 5.0 then
           ''I notice you might be feeling down today. It's okay to have difficult days. What's been on your mind?''
         else
           ''I'm here to support you. What would be most helpful for you right now?'')"

definition prompts :: "aria_state \<Rightarrow> (string \<times> string) list" where
  "prompts context =
     [(''initial'', ''Welcome! I'm ARIA, your adaptive AI companion. How are you feeling today?''),
      (''greeting'', ''Hello! It's nice to meet you. I'm here to provide support and companionship.''),
      (''personality_assessment'', ''I'd like to get to know you better. What kind of things do you enjoy talking about?''),
      (''mood_check'', ''How has your day been so far? I'm here to listen.''),
      (''therapeutic_mode'', get_therapeutic_prompt context),
      (''crisis_intervention'', ''I can hear that you're going through a really difficult time right now. Your safety and wellbeing are important to me. Can you tell me more about how you're feeling?''),
      (''companion_mode'', ''I'm glad we can chat together. What's on your mind today?''),
      (''coaching_mode'', ''Let's work together on your goals. What would you like to focus on?''),
      (''assessment_mode'', ''I'd like to understand better how you've been feeling lately. Can you share more about your experiences?''),
      (''closure'', ''Thank you for sharing with me today. Remember, I'm always here when you need support.''),
      (''follow_up'', ''How are you feeling after our conversation? Is there anything else I can help you with?'')]"

definition get_conversation_prompt :: "string \<Rightarrow> aria_state \<Rightarrow> string" where
  "get_conversation_prompt state context =
     (case map_of (prompts context) state of
        Some prompt \<Rightarrow> prompt
      | None \<Rightarrow> ''How can I help you today?'')"

section \<open>graph/workflow.py\<close>

text \<open>
  The names the module binds: its imports and the class it defines. \<open>datetime\<close> is
  not among them.
\<close>

definition workflow_globals :: "string list" where
  "workflow_globals =
     [''StateGraph'', ''END'', ''HumanMessage'', ''AIMessage'', ''ChatGoogleGenerativeAI'',
      ''observe'', ''langfuse_context'', ''ARIAState'', ''ConversationMode'',
      ''VectorMemorySystem'', ''EnhancedMemorySystem'', ''PersonalityAnalyzer'',
      ''TherapeuticAnalyzer'', ''SEALFramework'', ''ConversationGraph'', ''GOOGLE_API_KEY'',
      ''logger'', ''ARIAWorkflow'']"

fun mode_value :: "conversation_mode \<Rightarrow> string" where
  "mode_value COMPANION = ''companion''"
| "mode_value THERAPEUTIC = ''therapeutic''"
| "mode_value CRISIS = ''crisis''"
| "mode_value ASSESSMENT = ''assessment''"
| "mode_value COACHING = ''coaching''"

subsection \<open>Collaborators\<close>

text \<open>
  The workflow owns a memory system, a vector store, a SEAL framework and a language
  model. What they return on this turn is a parameter of the model; what the workflow
  asks them to store is logged, call by call, in the order of the calls.
  \<^item> \<open>llm_invoke\<close> stands for \<open>self.llm.invoke([...])\<close> followed by \<open>.content\<close>. Its
    arguments (the system prompt, the last six history messages and the current
    message) are computed from the state alone, by code that changes nothing and
    cannot raise, so the collaborator is given the state.
  \<^item> \<open>add_conversation\<close> and \<open>get_conversation_history\<close> catch every exception
    themselves (enhanced\_memory.py, lines 31 to 49 and 52 to 64) and
    \<open>store_personality_vector\<close> only fills dictionaries: none of them raises.
\<close>

record turn_metadata =
  md_conversation_mode :: string
  md_confidence :: real
  md_personality_confidence :: real
  md_mood_score :: real
  md_anxiety_level :: real

datatype call =
    StorePersonalityVector string personality_profile
  | AddConversation string string string turn_metadata
  | StoreConversationVector string string string timestamp string

record env =
  clock :: timestamp
  noise :: "personality_trait \<Rightarrow> real"
  get_conversation_history :: "string \<Rightarrow> history_message list"
  get_enhanced_context :: "string \<Rightarrow> string \<Rightarrow> string \<Rightarrow> error + memory_context"
  get_contextual_embeddings :: "string \<Rightarrow> string \<Rightarrow> error + real list"
  store_conversation_vector :: "string \<Rightarrow> string \<Rightarrow> error option"
  generate_self_edit :: "aria_state \<Rightarrow> error + seal_edit"
  llm_invoke :: "aria_state \<Rightarrow> error + string"

type_synonym node_result = "call list \<times> (error + aria_state)"

subsection \<open>The nodes\<close>

definition analyze_input :: "env \<Rightarrow> call list \<Rightarrow> aria_state \<Rightarrow> node_result" where
  "analyze_input e calls state =
     (case get_enhanced_context e (session_id state) (user_id state) (current_message state) of
        Inl err \<Rightarrow> (calls, Inl err)
      | Inr enhanced_context \<Rightarrow>
          (case get_contextual_embeddings e (user_id state) (current_message state) of
             Inl err \<Rightarrow> (calls, Inl err)
           | Inr query_vector \<Rightarrow>
               (calls, Inr (state\<lparr>memory_context := enhanced_context,
                                  context_vectors := query_vector\<rparr>))))"

definition update_personality :: "env \<Rightarrow> call list \<Rightarrow> aria_state \<Rightarrow> node_result" where
  "update_personality e calls state =
     (let sessions = (case total_sessions (memory_context state) of None \<Rightarrow> 0 | Some n \<Rightarrow> n);
          profile = (if sessions > 0
                     then (personality_profile state)\<lparr>confidence_score := 0.5\<rparr>
                     else personality_profile state)
      in case update_personality_profile (clock e) (noise e) profile (current_message state) of
           Inl err \<Rightarrow> (calls, Inl err)
         | Inr profile' \<Rightarrow>
             (calls @ [StorePersonalityVector (user_id state) profile'],
              Inr (state\<lparr>personality_profile := profile'\<rparr>)))"

text \<open>
  The two nodes that call \<open>self.therapeutic_analyzer.detect_crisis\<close> are stated over any
  crisis detector, so that a detector that raises can be stated; the workflow's own
  detector is \<^const>\<open>detect_crisis\<close>, which never raises. Neither node catches an
  exception.
\<close>

definition analyzer_detect_crisis :: "string \<Rightarrow> error + bool \<times> real" where
  "analyzer_detect_crisis text = Inr (detect_crisis text)"

definition update_therapeutic ::
  "(string \<Rightarrow> error + bool \<times> real) \<Rightarrow> call list \<Rightarrow> aria_state \<Rightarrow> node_result" where
  "update_therapeutic detector calls state =
     (case update_therapeutic_assessment_with detector (therapeutic_assessment state)
             (current_message state) of
        Inl err \<Rightarrow> (calls, Inl err)
      | Inr assessment \<Rightarrow> (calls, Inr (state\<lparr>therapeutic_assessment := assessment\<rparr>)))"

definition determine_mode_with ::
  "(string \<Rightarrow> error + bool \<times> real) \<Rightarrow> aria_state \<Rightarrow> error + aria_state" where
  "determine_mode_with detector state =
     (case detector (current_message state) of
        Inl err \<Rightarrow> Inl err
      | Inr (is_crisis, _) \<Rightarrow>
          if is_crisis then Inr (state\<lparr>conversation_mode := CRISIS\<rparr>)
          else if mood_score (therapeutic_assessment state) < 4.0
                  \<or> anxiety_level (therapeutic_assessment state) > 7.0
          then Inr (state\<lparr>conversation_mode := THERAPEUTIC\<rparr>)
          else if confidence_score (personality_profile state) < 0.3
          then Inr (state\<lparr>conversation_mode := ASSESSMENT\<rparr>)
          else if any_in [''goal'', ''improve'', ''achieve''] (lower (current_message state))
          then Inr (state\<lparr>conversation_mode := COACHING\<rparr>)
          else Inr (state\<lparr>conversation_mode := COMPANION\<rparr>))"

definition determine_mode :: "aria_state \<Rightarrow> error + aria_state" where
  "determine_mode state = determine_mode_with analyzer_detect_crisis state"

definition route_conversation_mode :: "aria_state \<Rightarrow> conversation_mode" where
  "route_conversation_mode state = conversation_mode state"

definition get_context :: "aria_state \<Rightarrow> error + aria_state" where
  "get_context state =
     (case get_next_state ''initial'' state of
        Inl err \<Rightarrow> Inl err
      | Inr current_graph_state \<Rightarrow>
          Inr (state\<lparr>graph_context :=
                 [(''current_state'', current_graph_state),
                  (''suggested_prompt'', get_conversation_prompt current_graph_state state)]\<rparr>))"

definition fallback_response :: string where
  "fallback_response = ''I'm here to help you. Could you tell me more about what's on your mind?''"

definition generate_response :: "env \<Rightarrow> aria_state \<Rightarrow> aria_state" where
  "generate_response e state =
     (let (response_content, conf) =
            (case llm_invoke e state of
               Inr generated \<Rightarrow> (generated, 0.8)
             | Inl err \<Rightarrow> (fallback_response, 0.3))
      in state\<lparr>response := response_content, confidence := conf\<rparr>)"

definition apply_seal_adaptation :: "env \<Rightarrow> aria_state \<Rightarrow> error + aria_state" where
  "apply_seal_adaptation e state =
     (if length (conversation_history state) > 0 then
        (case generate_self_edit e state of
           Inl err \<Rightarrow> Inl err
         | Inr seal_edit \<Rightarrow>
             (let state1 = state\<lparr>seal_adaptations := seal_adaptations state @ [seal_edit]\<rparr>
              in if hyperparameters seal_edit \<noteq> [] then
                   Inr (state1\<lparr>confidence :=
                          min (confidence state1 + effectiveness_score seal_edit * 0.1) 1.0\<rparr>)
                 else Inr state1))
      else Inr state)"

text \<open>
  \<open>_update_memory\<close> first calls \<open>add_conversation\<close> with the \<open>metadata\<close> dictionary;
  then it builds the arguments of \<open>store_conversation_vector\<close>, among them
  \<open>datetime.now().isoformat()\<close>.
\<close>

definition turn_metadata_of :: "aria_state \<Rightarrow> turn_metadata" where
  "turn_metadata_of state =
     \<lparr>md_conversation_mode = mode_value (conversation_mode state),
      md_confidence = confidence state,
      md_personality_confidence = confidence_score (personality_profile state),
      md_mood_score = mood_score (therapeutic_assessment state),
      md_anxiety_level = anxiety_level (therapeutic_assessment state)\<rparr>"

definition update_memory :: "env \<Rightarrow> call list \<Rightarrow> aria_state \<Rightarrow> node_result" where
  "update_memory e calls state =
     (let calls1 = calls @ [AddConversation (session_id state) (current_message state)
                              (response state) (turn_metadata_of state)];
          conversation_text =
            ''User: '' @ current_message state @ [CHR 0x0A] @ ''ARIA: '' @ response state
      in case datetime_now workflow_globals (clock e) of
           Inl err \<Rightarrow> (calls1, Inl err)
         | Inr now \<Rightarrow>
             (case store_conversation_vector e (user_id state) conversation_text of
                Some err \<Rightarrow> (calls1, Inl err)
              | None \<Rightarrow>
                  (calls1 @ [StoreConversationVector (user_id state) conversation_text
                               (mode_value (conversation_mode state)) now (session_id state)],
                   Inr state)))"

subsection \<open>The compiled graph\<close>

datatype node =
    AnalyzeInput | UpdatePersonality | UpdateTherapeutic | DetermineMode
  | GetContext | GenerateResponse | ApplySeal | UpdateMemory

text \<open>The table of \<open>add_conditional_edges\<close>, from the router's value to a node.\<close>

fun mode_target :: "conversation_mode \<Rightarrow> node" where
  "mode_target CRISIS = GenerateResponse"
| "mode_target THERAPEUTIC = GetContext"
| "mode_target COMPANION = GetContext"
| "mode_target ASSESSMENT = GetContext"
| "mode_target COACHING = GetContext"

text \<open>The edges; \<open>None\<close> is \<open>END\<close>. The state is the one the node has just returned.\<close>

fun next_node :: "node \<Rightarrow> aria_state \<Rightarrow> node option" where
  "next_node AnalyzeInput state = Some UpdatePersonality"
| "next_node UpdatePersonality state = Some UpdateTherapeutic"
| "next_node UpdateTherapeutic state = Some DetermineMode"
| "next_node DetermineMode state = Some (mode_target (route_conversation_mode state))"
| "next_node GetContext state = Some GenerateResponse"
| "next_node GenerateResponse state = Some ApplySeal"
| "next_node ApplySeal state = Some UpdateMemory"
| "next_node UpdateMemory state = None"

text \<open>The table of \<open>add_node\<close>: the method behind each node, over a crisis detector.\<close>

fun run_node ::
  "env \<Rightarrow> (string \<Rightarrow> error + bool \<times> real) \<Rightarrow> node \<Rightarrow> call list \<Rightarrow> aria_state \<Rightarrow> node_result"
where
  "run_node e detector AnalyzeInput calls state = analyze_input e calls state"
| "run_node e detector UpdatePersonality calls state = update_personality e calls state"
| "run_node e detector UpdateTherapeutic calls state = update_therapeutic detector calls state"
| "run_node e detector DetermineMode calls state = (calls, determine_mode_with detector state)"
| "run_node e detector GetContext calls state = (calls, get_context state)"
| "run_node e detector GenerateResponse calls state = (calls, Inr (generate_response e state))"
| "run_node e detector ApplySeal calls state = (calls, apply_seal_adaptation e state)"
| "run_node e detector UpdateMemory calls state = update_memory e calls state"

text \<open>
  A node's distance to \<open>END\<close> along the longest path: every edge goes to a node of
  smaller rank, so a run ends.
\<close>

fun rank :: "node \<Rightarrow> nat" where
  "rank AnalyzeInput = 8"
| "rank UpdatePersonality = 7"
| "rank UpdateTherapeutic = 6"
| "rank DetermineMode = 5"
| "rank GetContext = 4"
| "rank GenerateResponse = 3"
| "rank ApplySeal = 2"
| "rank UpdateMemory = 1"

text \<open>
  A run of the compiled graph from a node: the node's method is applied to the state,
  an exception ends the run, otherwise the edge is followed. The result is the list of
  the nodes entered, each with the state it was entered with, the calls logged so far
  and the final state or the exception.
\<close>

type_synonym run_result = "(node \<times> aria_state) list \<times> call list \<times> (error + aria_state)"

function run_from ::
  "env \<Rightarrow> (string \<Rightarrow> error + bool \<times> real) \<Rightarrow> node \<Rightarrow> call list \<Rightarrow> aria_state \<Rightarrow> run_result"
where
  "run_from e detector n calls state =
     (case run_node e detector n calls state of
        (calls', Inl err) \<Rightarrow> ([(n, state)], calls', Inl err)
      | (calls', Inr state') \<Rightarrow>
          (case next_node n state' of
             None \<Rightarrow> ([(n, state)], calls', Inr state')
           | Some m \<Rightarrow>
               (case run_from e detector m calls' state' of
                  (entered, calls'', result) \<Rightarrow> ((n, state) # entered, calls'', result))))"
  by pat_completeness auto
termination
proof (relation "measure (\<lambda>(e, detector, n, calls, state). rank n)")
  show "wf (measure (\<lambda>(e, detector, n, calls, state). rank n))"
    by simp
next
  fix e detector n calls state x calls' r state' m
  assume "next_node n state' = Some m"
  then have "rank m < rank n"
    by (cases n; cases "route_conversation_mode state'") auto
  then show "((e, detector, m, calls', state'), (e, detector, n, calls, state))
               \<in> measure (\<lambda>(e, detector, n, calls, state). rank n)"
    by simp
qed

declare run_from.simps [simp del]

definition workflow_ainvoke ::
  "env \<Rightarrow> (string \<Rightarrow> error + bool \<times> real) \<Rightarrow> call list \<Rightarrow> aria_state \<Rightarrow> run_result" where
  "workflow_ainvoke e detector calls initial_state =
     run_from e detector AnalyzeInput calls initial_state"

text \<open>
  Lines 78 to 92 of \<open>process_message\<close>: the \<open>try\<close> around the run, over the initial state
  that lines 60 to 72 are to build. The value is what the \<open>try\<close> statement returns.
\<close>

definition apology :: string where
  "apology = ''I apologize, but I encountered an issue processing your message. Please try again.''"

definition process_message_try ::
  "env \<Rightarrow> (string \<Rightarrow> error + bool \<times> real) \<Rightarrow> call list \<Rightarrow> aria_state \<Rightarrow> string" where
  "process_message_try e detector calls initial_state =
     (case workflow_ainvoke e detector calls initial_state of
        (entered, calls', Inr result) \<Rightarrow> response result
      | (entered, calls', Inl err) \<Rightarrow> apology)"

text \<open>
  \<open>process_message\<close> from its first line. The arguments of \<open>ARIAState(...)\<close> are
  evaluated in order: the history is fetched, then \<open>PersonalityProfile()\<close> and
  \<open>TherapeuticAssessment()\<close> are called, two names that workflow.py never binds. All this
  is before the \<open>try\<close>, so an exception here reaches the caller.
\<close>

definition process_message ::
  "env \<Rightarrow> (string \<Rightarrow> error + bool \<times> real) \<Rightarrow> call list \<Rightarrow> string \<Rightarrow> string \<Rightarrow> string
     \<Rightarrow> error + string" where
  "process_message e detector calls user_message session user =
     (let history = get_conversation_history e session
      in case global_name workflow_globals ''PersonalityProfile'' of
           Inl err \<Rightarrow> Inl err
         | Inr _ \<Rightarrow>
             (case global_name workflow_globals ''TherapeuticAssessment'' of
                Inl err \<Rightarrow> Inl err
              | Inr _ \<Rightarrow>
                  Inr (process_message_try e detector calls
                    \<lparr>user_id = user, session_id = session, current_message = user_message,
                     conversation_history = history,
                     personality_profile = default_profile\<lparr>last_updated := clock e\<rparr>,
                     therapeutic_assessment = default_assessment,
                     conversation_mode = COMPANION, context_vectors = [],
                     memory_context = \<lparr>total_sessions = None, relationship_strength = None\<rparr>,
                     seal_adaptations = [], graph_context = [], response = [],
                     confidence = 0.0, next_action = []\<rparr>)))"

section \<open>Notions of the specification\<close>

text \<open>The specification's \<open>clamp(x, lo, hi)\<close>.\<close>

definition clamp_spec :: "real \<Rightarrow> real \<Rightarrow> real \<Rightarrow> real" where
  "clamp_spec x lo hi = (if x < lo then lo else if hi < x then hi else x)"

text \<open>
  The specification's hit count: the number of listed keywords or phrases that occur
  in the lower-cased text.
\<close>

definition hits_spec :: "string list \<Rightarrow> string \<Rightarrow> nat" where
  "hits_spec ws text = card {w \<in> set ws. sublist w (lower text)}"

text \<open>The stage that \<open>graph_context\<close> holds, if any.\<close>

definition stored_stage :: "aria_state \<Rightarrow> string option" where
  "stored_stage state = map_of (graph_context state) ''current_state''"

section \<open>Concrete inputs\<close>

text \<open>
  A fresh state for a message, as \<open>process_message\<close> would build it for user \<open>u1\<close> and
  session \<open>s1\<close>: a default profile and assessment, mode \<open>COMPANION\<close>, empty
  dictionaries; and a turn on which every collaborator fails that can fail.
\<close>

definition initial_state :: "string \<Rightarrow> history_message list \<Rightarrow> aria_state" where
  "initial_state user_message history =
     \<lparr>user_id = ''u1'', session_id = ''s1'', current_message = user_message,
      conversation_history = history, personality_profile = default_profile,
      therapeutic_assessment = default_assessment, conversation_mode = COMPANION,
      context_vectors = [], memory_context = \<lparr>total_sessions = None, relationship_strength = None\<rparr>,
      seal_adaptations = [], graph_context = [], response = [], confidence = 0.0,
      next_action = []\<rparr>"

text \<open>A state with mood 8.0 and anxiety 2.0 whose mode is not \<open>CRISIS\<close>.\<close>

definition high_mood_state :: aria_state where
  "high_mood_state =
     (initial_state ''hello'' [])
       \<lparr>therapeutic_assessment := default_assessment\<lparr>mood_score := 8.0, anxiety_level := 2.0\<rparr>\<rparr>"

definition failing_env :: env where
  "failing_env =
     \<lparr>clock = 0, noise = (\<lambda>trait. 0),
      get_conversation_history = (\<lambda>session. []),
      get_enhanced_context =
        (\<lambda>session user query. Inr \<lparr>total_sessions = Some 0, relationship_strength = Some 0\<rparr>),
      get_contextual_embeddings = (\<lambda>user query. Inr []),
      store_conversation_vector = (\<lambda>user text. None),
      generate_self_edit = (\<lambda>state. Inl (CollaboratorError ''seal'')),
      llm_invoke = (\<lambda>state. Inl (CollaboratorError ''llm''))\<rparr>"

definition failing_detector :: "string \<Rightarrow> error + bool \<times> real" where
  "failing_detector text = Inl (CollaboratorError ''detect_crisis'')"

section \<open>Keyword counting\<close>

lemma count_hits_length: "count_hits ws t = int (length (filter (\<lambda>w. sublist w t) ws))"
  unfolding count_hits_def by (induction ws) auto

lemma count_hits_nonneg: "0 \<le> count_hits ws t"
  by (simp add: count_hits_length)

lemma count_hits_positive: "0 < count_hits ws t \<longleftrightarrow> (\<exists>w\<in>set ws. sublist w t)"
  by (simp add: count_hits_length filter_empty_conv)

lemma count_hits_card:
  assumes "distinct ws"
  shows "count_hits ws (lower text) = int (hits_spec ws text)"
proof -
  have "{w \<in> set ws. sublist w (lower text)} = {w. sublist w (lower text)} \<inter> set ws"
    by auto
  with assms show ?thesis
    by (simp add: count_hits_length hits_spec_def distinct_length_filter)
qed

lemma distinct_crisis_indicators: "distinct crisis_indicators"
  by code_simp

lemma distinct_mood_indicators_positive: "distinct mood_indicators_positive"
  by code_simp

lemma distinct_mood_indicators_negative: "distinct mood_indicators_negative"
  by code_simp

lemma distinct_anxiety_indicators: "distinct anxiety_indicators"
  by code_simp

lemma any_in_iff: "any_in ws t \<longleftrightarrow> (\<exists>w\<in>set ws. sublist w t)"
  by (simp add: any_in_def list_ex_iff)

lemma fst_detect_crisis:
  "fst (detect_crisis t) \<longleftrightarrow> (\<exists>p\<in>set crisis_indicators. sublist p (lower t))"
  by (simp add: detect_crisis_def Let_def count_hits_positive)

lemma snd_detect_crisis:
  "snd (detect_crisis t) = min (2 * real (hits_spec crisis_indicators t)) 10"
  by (simp add: detect_crisis_def Let_def count_hits_card [OF distinct_crisis_indicators]
      mult.commute)

section \<open>The therapeutic analyzer\<close>

text \<open>
  Claim C3. For every text, \<open>detect_crisis\<close> reports a crisis exactly when at least one
  phrase of the fixed crisis list occurs in the lower-cased text, and its risk is
  \<open>min(2.0 * hit_count, 10.0)\<close>, where \<open>hit_count\<close> is the number of listed phrases that
  occur in the text. Hence a text with at least as many hits has at least the risk.
\<close>

theorem detect_crisis_characterisation:
  "(fst (detect_crisis t) \<longleftrightarrow> (\<exists>p\<in>set crisis_indicators. sublist p (lower t)))
   \<and> snd (detect_crisis t) = min (2 * real (hits_spec crisis_indicators t)) 10
   \<and> (hits_spec crisis_indicators t \<le> hits_spec crisis_indicators t'
        \<longrightarrow> snd (detect_crisis t) \<le> snd (detect_crisis t'))"
proof -
  have mono: "snd (detect_crisis t) \<le> snd (detect_crisis t')"
    if "hits_spec crisis_indicators t \<le> hits_spec crisis_indicators t'"
    using that unfolding snd_detect_crisis by (simp add: min_le_iff_disj)
  with fst_detect_crisis [of t] snd_detect_crisis [of t] show ?thesis
    by blast
qed

theorem detect_crisis_characterisation_witness:
  "(\<exists>p\<in>set crisis_indicators. sublist p (lower ''I feel HOPELESS and want to die''))
   \<and> hits_spec crisis_indicators ''hello''
       \<le> hits_spec crisis_indicators ''I feel HOPELESS and want to die''
   \<and> fst (detect_crisis ''I feel HOPELESS and want to die'')
   \<and> snd (detect_crisis ''I feel HOPELESS and want to die'') = 4
   \<and> snd (detect_crisis ''hello'') \<le> snd (detect_crisis ''I feel HOPELESS and want to die'')"
proof -
  have present: "\<exists>p\<in>set crisis_indicators. sublist p (lower ''I feel HOPELESS and want to die'')"
    by code_simp
  have two: "hits_spec crisis_indicators ''I feel HOPELESS and want to die'' = 2"
    by code_simp
  have none: "hits_spec crisis_indicators ''hello'' = 0"
    by code_simp
  from present two none
    detect_crisis_characterisation
      [where t = "''I feel HOPELESS and want to die''" and t' = "''hello''"]
    detect_crisis_characterisation
      [where t = "''hello''" and t' = "''I feel HOPELESS and want to die''"]
  show ?thesis
    by simp
qed

text \<open>
  Claim C5. For every text, \<open>assess_mood\<close> is \<open>5.0 + 0.5 * (positive_hits - negative_hits)\<close>
  clamped to \<open>[1, 10]\<close> and \<open>assess_anxiety\<close> is \<open>3.0 + 1.5 * anxiety_hits\<close> clamped to
  \<open>[1, 10]\<close>, the hits counted against the fixed keyword lists; both results lie in
  \<open>[1, 10]\<close> whatever the text.
\<close>

theorem mood_anxiety_clamped:
  "assess_mood t =
     clamp_spec (5 + 0.5 * (real (hits_spec mood_indicators_positive t)
                            - real (hits_spec mood_indicators_negative t))) 1 10
   \<and> assess_anxiety t = clamp_spec (3 + 1.5 * real (hits_spec anxiety_indicators t)) 1 10
   \<and> 1 \<le> assess_mood t \<and> assess_mood t \<le> 10
   \<and> 1 \<le> assess_anxiety t \<and> assess_anxiety t \<le> 10"
proof -
  have clamp: "max 1 (min 10 x) = clamp_spec x 1 10" for x :: real
    by (simp add: clamp_spec_def)
  have mood: "assess_mood t =
     clamp_spec (5 + 0.5 * (real (hits_spec mood_indicators_positive t)
                            - real (hits_spec mood_indicators_negative t))) 1 10"
    by (simp add: assess_mood_def Let_def clamp
        count_hits_card [OF distinct_mood_indicators_positive]
        count_hits_card [OF distinct_mood_indicators_negative])
  have anxiety: "assess_anxiety t = clamp_spec (3 + 1.5 * real (hits_spec anxiety_indicators t)) 1 10"
    by (simp add: assess_anxiety_def Let_def clamp mult.commute
        count_hits_card [OF distinct_anxiety_indicators])
  have "1 \<le> assess_mood t \<and> assess_mood t \<le> 10"
    by (simp add: assess_mood_def Let_def)
  moreover have "1 \<le> assess_anxiety t \<and> assess_anxiety t \<le> 10"
    by (simp add: assess_anxiety_def Let_def)
  ultimately show ?thesis
    using mood anxiety by blast
qed

theorem mood_anxiety_clamped_witness:
  "assess_mood ''sad, down and depressed'' = 3.5
   \<and> assess_anxiety
        ''anxious worried panic nervous scared frightened overwhelmed stressed tense restless''
      = 10"
proof -
  have "hits_spec mood_indicators_positive ''sad, down and depressed'' = 0"
    by code_simp
  moreover have "hits_spec mood_indicators_negative ''sad, down and depressed'' = 3"
    by code_simp
  moreover have "hits_spec anxiety_indicators
      ''anxious worried panic nervous scared frightened overwhelmed stressed tense restless'' = 10"
    by code_simp
  ultimately show ?thesis
    using mood_anxiety_clamped [of "''sad, down and depressed''"]
      mood_anxiety_clamped
        [of "''anxious worried panic nervous scared frightened overwhelmed stressed tense restless''"]
    by (simp add: clamp_spec_def)
qed

lemma append_missing_extends:
  "\<exists>extra. append_missing xs ys = xs @ extra \<and> distinct extra
           \<and> set extra = set ys - set xs"
proof (induction ys arbitrary: xs)
  case Nil
  then show ?case by simp
next
  case (Cons y ys)
  show ?case
  proof (cases "y \<in> set xs")
    case True
    from Cons.IH [of xs] obtain extra where
      "append_missing xs ys = xs @ extra" "distinct extra" "set extra = set ys - set xs"
      by blast
    with True show ?thesis
      by auto
  next
    case False
    from Cons.IH [of "xs @ [y]"] obtain extra where
      e: "append_missing (xs @ [y]) ys = (xs @ [y]) @ extra" "distinct extra"
         "set extra = set ys - set (xs @ [y])"
      by blast
    have "append_missing xs (y # ys) = xs @ (y # extra)"
      using False e(1) by simp
    moreover have "distinct (y # extra)"
      using e(2,3) by auto
    moreover have "set (y # extra) = set (y # ys) - set xs"
      using False e(3) by auto
    ultimately show ?thesis
      by blast
  qed
qed

lemma update_therapeutic_assessment_fields:
  "mood_score (update_therapeutic_assessment a t) = 0.7 * mood_score a + 0.3 * assess_mood t"
  "anxiety_level (update_therapeutic_assessment a t)
     = 0.7 * anxiety_level a + 0.3 * assess_anxiety t"
  "coping_strategies (update_therapeutic_assessment a t)
     = append_missing (coping_strategies a) (identify_coping_strategies t)"
  "risk_factors (update_therapeutic_assessment a t)
     = (if fst (detect_crisis t)
        then risk_factors a
               @ [''Crisis indicators detected: '' @ str_float (snd (detect_crisis t))]
        else risk_factors a)"
  by (simp_all add: update_therapeutic_assessment_def Let_def split: prod.split)

text \<open>
  Claim C8. \<open>update_therapeutic_assessment\<close> smooths mood and anxiety with weight 0.3 on
  the new observation (\<open>new = 0.7 * old + 0.3 * observed\<close>); it extends
  \<open>coping_strategies\<close> by exactly the identified strategies that were not yet present,
  each once, so the list never shrinks and stays free of duplicates; and it appends one
  risk-factor tag, without looking for duplicates, exactly when the text contains a
  crisis phrase, so \<open>risk_factors\<close> grows by one entry per crisis turn and is unchanged
  otherwise.
\<close>

theorem update_therapeutic_assessment_contract:
  "mood_score (update_therapeutic_assessment a t) = 0.7 * mood_score a + 0.3 * assess_mood t
   \<and> anxiety_level (update_therapeutic_assessment a t)
       = 0.7 * anxiety_level a + 0.3 * assess_anxiety t
   \<and> (\<exists>extra. coping_strategies (update_therapeutic_assessment a t)
                 = coping_strategies a @ extra
               \<and> distinct extra
               \<and> set extra = set (identify_coping_strategies t) - set (coping_strategies a))
   \<and> (distinct (coping_strategies a)
        \<longrightarrow> distinct (coping_strategies (update_therapeutic_assessment a t)))
   \<and> ((\<exists>p\<in>set crisis_indicators. sublist p (lower t))
        \<longrightarrow> (\<exists>tag. risk_factors (update_therapeutic_assessment a t) = risk_factors a @ [tag]))
   \<and> (\<not> (\<exists>p\<in>set crisis_indicators. sublist p (lower t))
        \<longrightarrow> risk_factors (update_therapeutic_assessment a t) = risk_factors a)"
proof -
  obtain extra where extra:
    "coping_strategies (update_therapeutic_assessment a t) = coping_strategies a @ extra"
    "distinct extra"
    "set extra = set (identify_coping_strategies t) - set (coping_strategies a)"
    using append_missing_extends [of "coping_strategies a" "identify_coping_strategies t"]
    by (auto simp: update_therapeutic_assessment_fields(3))
  have dedup: "distinct (coping_strategies (update_therapeutic_assessment a t))"
    if "distinct (coping_strategies a)"
    using that extra by auto
  have risk: "risk_factors (update_therapeutic_assessment a t)
      = (if \<exists>p\<in>set crisis_indicators. sublist p (lower t)
         then risk_factors a
                @ [''Crisis indicators detected: '' @ str_float (snd (detect_crisis t))]
         else risk_factors a)"
    by (simp add: update_therapeutic_assessment_fields(4) fst_detect_crisis)
  show ?thesis
    using extra dedup risk
    by (simp add: update_therapeutic_assessment_fields(1,2))
qed

theorem update_therapeutic_assessment_contract_witness:
  "distinct (coping_strategies (default_assessment\<lparr>risk_factors := [''earlier'']\<rparr>))
   \<and> (\<exists>p\<in>set crisis_indicators. sublist p (lower ''I feel hopeless, I talk to nobody''))
   \<and> hits_spec crisis_indicators ''a walk helps'' = 0
   \<and> mood_score (update_therapeutic_assessment (default_assessment\<lparr>risk_factors := [''earlier'']\<rparr>)
        ''I feel hopeless, I talk to nobody'')
      = 0.7 * 5 + 0.3 * assess_mood ''I feel hopeless, I talk to nobody''
   \<and> length (risk_factors (update_therapeutic_assessment
        (default_assessment\<lparr>risk_factors := [''earlier'']\<rparr>)
        ''I feel hopeless, I talk to nobody'')) = 2
   \<and> risk_factors (update_therapeutic_assessment
        (default_assessment\<lparr>risk_factors := [''earlier'']\<rparr>) ''a walk helps'') = [''earlier'']
   \<and> distinct (coping_strategies (update_therapeutic_assessment
        (default_assessment\<lparr>risk_factors := [''earlier'']\<rparr>)
        ''I feel hopeless, I talk to nobody''))"
proof -
  let ?a = "default_assessment\<lparr>risk_factors := [''earlier'']\<rparr>"
  have d: "distinct (coping_strategies ?a)"
    by (simp add: default_assessment_def)
  have c: "\<exists>p\<in>set crisis_indicators. sublist p (lower ''I feel hopeless, I talk to nobody'')"
    by code_simp
  have n: "\<not> (\<exists>p\<in>set crisis_indicators. sublist p (lower ''a walk helps''))"
    by code_simp
  have z: "hits_spec crisis_indicators ''a walk helps'' = 0"
    by code_simp
  have r: "risk_factors ?a = [''earlier'']" "mood_score ?a = 5"
    by (simp_all add: default_assessment_def)
  from update_therapeutic_assessment_contract [of ?a "''I feel hopeless, I talk to nobody''"]
    update_therapeutic_assessment_contract [of ?a "''a walk helps''"] d c n z r
  show ?thesis
    by auto
qed

section \<open>The conversation graph\<close>

lemma successors_initial: "successors ''initial'' = Inr [(''greeting'', ''first_message'')]"
  by (simp add: successors_def states_def transitions_def)

lemma successors_mood_check:
  "successors ''mood_check'' =
     Inr [(''therapeutic_mode'', ''distress_detected''), (''companion_mode'', ''neutral_mood''),
          (''crisis_intervention'', ''crisis_detected'')]"
  by (simp add: successors_def states_def transitions_def)

lemma guard_first_message:
  "evaluate_transition_condition ''first_message'' c \<longleftrightarrow> conversation_history c = []"
  by (simp add: evaluate_transition_condition_def conditions_def)

lemma guard_distress_detected:
  "evaluate_transition_condition ''distress_detected'' c \<longleftrightarrow>
     mood_score (therapeutic_assessment c) < 4 \<or> anxiety_level (therapeutic_assessment c) > 7"
  by (simp add: evaluate_transition_condition_def conditions_def)

lemma guard_neutral_mood:
  "evaluate_transition_condition ''neutral_mood'' c \<longleftrightarrow>
     4 \<le> mood_score (therapeutic_assessment c) \<and> mood_score (therapeutic_assessment c) \<le> 7
     \<and> anxiety_level (therapeutic_assessment c) \<le> 7"
  by (simp add: evaluate_transition_condition_def conditions_def)

lemma guard_crisis_detected:
  "evaluate_transition_condition ''crisis_detected'' c \<longleftrightarrow> conversation_mode c = CRISIS"
  by (simp add: evaluate_transition_condition_def conditions_def)

lemma get_next_state_initial:
  "get_next_state ''initial'' c
     = Inr (if conversation_history c = [] then ''greeting'' else ''initial'')"
  by (simp add: get_next_state_def successors_initial guard_first_message)

lemma get_next_state_mood_check:
  "get_next_state ''mood_check'' c =
     Inr (if mood_score (therapeutic_assessment c) < 4
             \<or> anxiety_level (therapeutic_assessment c) > 7 then ''therapeutic_mode''
          else if mood_score (therapeutic_assessment c) \<le> 7 then ''companion_mode''
          else if conversation_mode c = CRISIS then ''crisis_intervention''
          else ''mood_check'')"
  by (auto simp: get_next_state_def successors_mood_check guard_distress_detected
      guard_neutral_mood guard_crisis_detected)

text \<open>
  Claim C6, as the code has it. From stage \<open>mood_check\<close>, \<open>get_next_state\<close> tries the
  guards of the outgoing edges in the declared order and the first that holds wins:
  \<open>therapeutic_mode\<close> when mood is below 4.0 or anxiety above 7.0; otherwise
  \<open>companion_mode\<close> when mood is at most 7.0 (the neutral-mood guard asks for
  \<open>4.0 \<le> mood \<le> 7.0\<close> and anxiety at most 7.0); otherwise \<open>crisis_intervention\<close> when
  the mode is \<open>CRISIS\<close>; otherwise the stage stays \<open>mood_check\<close>. So mood 6.0 with
  anxiety 2.0 gives \<open>companion_mode\<close>, and mood 8.0 with anxiety 2.0 and a mode
  other than \<open>CRISIS\<close> leaves the stage at \<open>mood_check\<close>.
\<close>

theorem mood_check_first_match:
  "(mood_score (therapeutic_assessment c) < 4 \<or> anxiety_level (therapeutic_assessment c) > 7
      \<longrightarrow> get_next_state ''mood_check'' c = Inr ''therapeutic_mode'')
   \<and> (4 \<le> mood_score (therapeutic_assessment c) \<and> mood_score (therapeutic_assessment c) \<le> 7
       \<and> anxiety_level (therapeutic_assessment c) \<le> 7
      \<longrightarrow> get_next_state ''mood_check'' c = Inr ''companion_mode'')
   \<and> (7 < mood_score (therapeutic_assessment c) \<and> anxiety_level (therapeutic_assessment c) \<le> 7
       \<and> conversation_mode c = CRISIS
      \<longrightarrow> get_next_state ''mood_check'' c = Inr ''crisis_intervention'')
   \<and> (7 < mood_score (therapeutic_assessment c) \<and> anxiety_level (therapeutic_assessment c) \<le> 7
       \<and> conversation_mode c \<noteq> CRISIS
      \<longrightarrow> get_next_state ''mood_check'' c = Inr ''mood_check'')"
  by (simp add: get_next_state_mood_check)

theorem mood_check_first_match_witness:
  "4 \<le> mood_score (therapeutic_assessment
          (high_mood_state\<lparr>therapeutic_assessment :=
             default_assessment\<lparr>mood_score := 6, anxiety_level := 2\<rparr>\<rparr>))
   \<and> 7 < mood_score (therapeutic_assessment high_mood_state)
   \<and> conversation_mode high_mood_state \<noteq> CRISIS
   \<and> get_next_state ''mood_check''
        (high_mood_state\<lparr>therapeutic_assessment :=
           default_assessment\<lparr>mood_score := 6, anxiety_level := 2\<rparr>\<rparr>) = Inr ''companion_mode''
   \<and> get_next_state ''mood_check''
        (high_mood_state\<lparr>therapeutic_assessment :=
           default_assessment\<lparr>mood_score := 1, anxiety_level := 2\<rparr>\<rparr>) = Inr ''therapeutic_mode''
   \<and> get_next_state ''mood_check'' (high_mood_state\<lparr>conversation_mode := CRISIS\<rparr>)
       = Inr ''crisis_intervention''
   \<and> get_next_state ''mood_check'' high_mood_state = Inr ''mood_check''"
  using
    mood_check_first_match [of "high_mood_state\<lparr>therapeutic_assessment :=
      default_assessment\<lparr>mood_score := 6, anxiety_level := 2\<rparr>\<rparr>"]
    mood_check_first_match [of "high_mood_state\<lparr>therapeutic_assessment :=
      default_assessment\<lparr>mood_score := 1, anxiety_level := 2\<rparr>\<rparr>"]
    mood_check_first_match [of "high_mood_state\<lparr>conversation_mode := CRISIS\<rparr>"]
    mood_check_first_match [of high_mood_state]
  by (simp add: high_mood_state_def initial_state_def default_assessment_def)

text \<open>
  The claim as the specification words it fails: with mood 8.0 and anxiety 2.0 and a
  mode other than \<open>CRISIS\<close>, the stage after \<open>mood_check\<close> is \<open>mood_check\<close>, not
  \<open>companion_mode\<close>.
\<close>

theorem mood_check_high_mood_counterexample:
  "mood_score (therapeutic_assessment high_mood_state) = 8
   \<and> anxiety_level (therapeutic_assessment high_mood_state) = 2
   \<and> conversation_mode high_mood_state \<noteq> CRISIS
   \<and> get_next_state ''mood_check'' high_mood_state \<noteq> Inr ''companion_mode''
   \<and> get_next_state ''mood_check'' high_mood_state = Inr ''mood_check''"
  by (simp add: get_next_state_mood_check high_mood_state_def initial_state_def
      default_assessment_def)

section \<open>Mode selection\<close>

lemma determine_mode_chain:
  "determine_mode s =
     Inr (s\<lparr>conversation_mode :=
       (if \<exists>p\<in>set crisis_indicators. sublist p (lower (current_message s)) then CRISIS
        else if mood_score (therapeutic_assessment s) < 4
                \<or> anxiety_level (therapeutic_assessment s) > 7 then THERAPEUTIC
        else if confidence_score (personality_profile s) < 0.3 then ASSESSMENT
        else if \<exists>w\<in>set [''goal'', ''improve'', ''achieve''].
                  sublist w (lower (current_message s)) then COACHING
        else COMPANION)\<rparr>)"
  unfolding determine_mode_def determine_mode_with_def analyzer_detect_crisis_def
  using fst_detect_crisis [of "current_message s"]
  by (cases "detect_crisis (current_message s)") (simp add: any_in_iff)

text \<open>
  Claim C1. \<open>_determine_mode\<close> returns the state with nothing but the mode changed, and
  the mode follows the priority chain: \<open>CRISIS\<close> when a crisis phrase occurs in the
  lower-cased message; else \<open>THERAPEUTIC\<close> when mood is below 4.0 or anxiety above 7.0;
  else \<open>ASSESSMENT\<close> when the profile's confidence is below 0.3; else \<open>COACHING\<close> when
  the lower-cased message contains \<open>goal\<close>, \<open>improve\<close> or \<open>achieve\<close>; else
  \<open>COMPANION\<close>. The mode the state came with plays no part. In particular a message
  with a crisis phrase gets \<open>CRISIS\<close> whatever the mood and the other keywords.
\<close>

theorem determine_mode_priority:
  "determine_mode st =
     Inr (st\<lparr>conversation_mode :=
       (if \<exists>p\<in>set crisis_indicators. sublist p (lower (current_message st)) then CRISIS
        else if mood_score (therapeutic_assessment st) < 4
                \<or> anxiety_level (therapeutic_assessment st) > 7 then THERAPEUTIC
        else if confidence_score (personality_profile st) < 0.3 then ASSESSMENT
        else if \<exists>w\<in>set [''goal'', ''improve'', ''achieve''].
                  sublist w (lower (current_message st)) then COACHING
        else COMPANION)\<rparr>)
   \<and> determine_mode (st\<lparr>conversation_mode := previous\<rparr>) = determine_mode st
   \<and> ((\<exists>p\<in>set crisis_indicators. sublist p (lower (current_message st)))
        \<longrightarrow> determine_mode st = Inr (st\<lparr>conversation_mode := CRISIS\<rparr>))"
proof -
  have fresh: "determine_mode (st\<lparr>conversation_mode := previous\<rparr>) = determine_mode st"
    unfolding determine_mode_chain by simp
  from determine_mode_chain [of st] fresh show ?thesis
    by simp
qed

theorem determine_mode_priority_witness:
  "(\<exists>p\<in>set crisis_indicators.
      sublist p (lower ''I feel HOPELESS about my goal to improve''))
   \<and> determine_mode
       ((initial_state ''I feel HOPELESS about my goal to improve'' [])
          \<lparr>therapeutic_assessment := default_assessment\<lparr>mood_score := 2\<rparr>\<rparr>)
     = Inr ((initial_state ''I feel HOPELESS about my goal to improve'' [])
          \<lparr>therapeutic_assessment := default_assessment\<lparr>mood_score := 2\<rparr>,
           conversation_mode := CRISIS\<rparr>)"
proof -
  have present: "\<exists>p\<in>set crisis_indicators.
      sublist p (lower ''I feel HOPELESS about my goal to improve'')"
    by code_simp
  then show ?thesis
    using determine_mode_priority
      [of "(initial_state ''I feel HOPELESS about my goal to improve'' [])
             \<lparr>therapeutic_assessment := default_assessment\<lparr>mood_score := 2\<rparr>\<rparr>"]
    by (simp add: initial_state_def)
qed

section \<open>The personality analyzer\<close>

lemma smooth_into_other: "k \<notin> fst ` set kvs \<Longrightarrow> smooth_into alpha m kvs k = m k"
  by (induction alpha m kvs rule: smooth_into.induct) (auto split: option.splits)

lemma smooth_into_key:
  "distinct (map fst kvs) \<Longrightarrow> (k, v) \<in> set kvs \<Longrightarrow>
     smooth_into alpha m kvs k =
       Some (case m k of Some old \<Rightarrow> (1 - alpha) * old + alpha * v | None \<Rightarrow> v)"
proof (induction alpha m kvs rule: smooth_into.induct)
  case (1 alpha m)
  then show ?case by simp
next
  case (2 alpha m k' new_score rest)
  show ?case
  proof (cases "k' = k")
    case True
    with "2.prems" have "v = new_score" "k \<notin> fst ` set rest"
      by force+
    with True show ?thesis
      by (simp add: smooth_into_other split: option.splits)
  next
    case False
    with "2.prems" have "(k, v) \<in> set rest" "distinct (map fst rest)"
      by auto
    with "2.IH" False show ?thesis
      by (simp split: option.splits)
  qed
qed

text \<open>
  What the body of \<open>update_personality_profile\<close> does before it reaches
  \<open>datetime.now()\<close>: an observed trait is smoothed with weight 0.1 when the profile
  already has it and assigned when it is new, and the confidence grows by 0.05 up to
  1.0.
\<close>

lemma smoothed_profile_traits:
  assumes "(trait, observed) \<in> set (analyze_text_for_personality jitter t)"
  shows "big_five (smoothed_profile jitter p t) trait =
           Some (case big_five p trait of
                   Some old \<Rightarrow> 0.9 * old + 0.1 * observed
                 | None \<Rightarrow> observed)"
proof -
  have "distinct (map fst (analyze_text_for_personality jitter t))"
    by (simp add: analyze_text_for_personality_def Let_def personality_keywords_def)
  from smooth_into_key [OF this assms, of "0.1" "big_five p"] show ?thesis
    by (cases "big_five p trait") (simp_all add: smoothed_profile_def Let_def)
qed

lemma smoothed_profile_confidence:
  "confidence_score (smoothed_profile jitter p t) = min (confidence_score p + 0.05) 1"
  "confidence_score p \<le> 1 \<Longrightarrow> confidence_score p \<le> confidence_score (smoothed_profile jitter p t)"
  "last_updated (smoothed_profile jitter p t) = last_updated p"
  by (simp_all add: smoothed_profile_def Let_def)

text \<open>
  Claim C7, where the code departs from it. \<open>update_personality_profile\<close> ends with
  \<open>current_profile.last_updated = datetime.now()\<close>, and personality\_analyzer.py never
  imports \<open>datetime\<close>: whatever the profile and the text, the call raises \<open>NameError\<close>
  after the smoothing and returns no profile.
\<close>

theorem update_personality_profile_raises:
  "update_personality_profile now jitter p t = Inl (NameError ''datetime'')"
  by (simp add: update_personality_profile_def datetime_now_def personality_analyzer_globals_def)

section \<open>The nodes of the workflow\<close>

lemma generate_response_cases:
  "llm_invoke e s = Inl err \<Longrightarrow>
     generate_response e s = s\<lparr>response := fallback_response, confidence := 0.3\<rparr>"
  "llm_invoke e s = Inr generated \<Longrightarrow>
     generate_response e s = s\<lparr>response := generated, confidence := 0.8\<rparr>"
  by (simp_all add: generate_response_def)

lemma generate_response_keeps:
  "graph_context (generate_response e s) = graph_context s"
  "conversation_history (generate_response e s) = conversation_history s"
  "session_id (generate_response e s) = session_id s"
  "current_message (generate_response e s) = current_message s"
  "therapeutic_assessment (generate_response e s) = therapeutic_assessment s"
  "conversation_mode (generate_response e s) = conversation_mode s"
  by (simp_all add: generate_response_def split: sum.splits)

lemma generate_response_text:
  "response (generate_response e s) =
     (case llm_invoke e s of Inr generated \<Rightarrow> generated | Inl err \<Rightarrow> fallback_response)"
  by (simp add: generate_response_def split: sum.splits)

lemma apply_seal_adaptation_keeps:
  assumes "apply_seal_adaptation e s = Inr s'"
  shows "graph_context s' = graph_context s" "conversation_history s' = conversation_history s"
    "session_id s' = session_id s" "current_message s' = current_message s"
    "response s' = response s" "conversation_mode s' = conversation_mode s"
  using assms
  by (auto simp: apply_seal_adaptation_def Let_def split: if_splits sum.splits)

lemma apply_seal_adaptation_first_turn:
  "conversation_history s = [] \<Longrightarrow> apply_seal_adaptation e s = Inr s"
  by (simp add: apply_seal_adaptation_def)

lemma get_context_result:
  "get_context s =
     Inr (s\<lparr>graph_context :=
       [(''current_state'', if conversation_history s = [] then ''greeting'' else ''initial''),
        (''suggested_prompt'',
           get_conversation_prompt
             (if conversation_history s = [] then ''greeting'' else ''initial'') s)]\<rparr>)"
  by (simp add: get_context_def get_next_state_initial)

section \<open>Runs of the compiled graph\<close>

lemma run_from_UpdateMemory:
  "run_from e d UpdateMemory calls s =
     ([(UpdateMemory, s)],
      calls @ [AddConversation (session_id s) (current_message s) (response s)
                 (turn_metadata_of s)],
      Inl (NameError ''datetime''))"
  by (simp add: run_from.simps update_memory_def datetime_now_def workflow_globals_def)

lemma run_from_ApplySeal:
  "run_from e d ApplySeal calls s =
     (case apply_seal_adaptation e s of
        Inl err \<Rightarrow> ([(ApplySeal, s)], calls, Inl err)
      | Inr s' \<Rightarrow>
          ([(ApplySeal, s), (UpdateMemory, s')],
           calls @ [AddConversation (session_id s') (current_message s') (response s')
                      (turn_metadata_of s')],
           Inl (NameError ''datetime'')))"
  by (simp add: run_from.simps [of _ _ ApplySeal] run_from_UpdateMemory split: sum.splits)

lemma run_from_GenerateResponse:
  "run_from e d GenerateResponse calls s =
     (case run_from e d ApplySeal calls (generate_response e s) of
        (entered, calls', result) \<Rightarrow> ((GenerateResponse, s) # entered, calls', result))"
  by (simp add: run_from.simps [of _ _ GenerateResponse])

lemma run_from_GetContext:
  "run_from e d GetContext calls s =
     (case get_context s of
        Inl err \<Rightarrow> ([(GetContext, s)], calls, Inl err)
      | Inr s' \<Rightarrow>
          (case run_from e d GenerateResponse calls s' of
             (entered, calls', result) \<Rightarrow> ((GetContext, s) # entered, calls', result)))"
  by (simp add: run_from.simps [of _ _ GetContext] split: sum.splits)

lemma run_from_DetermineMode:
  "run_from e d DetermineMode calls s =
     (case determine_mode_with d s of
        Inl err \<Rightarrow> ([(DetermineMode, s)], calls, Inl err)
      | Inr s' \<Rightarrow>
          (case run_from e d (mode_target (conversation_mode s')) calls s' of
             (entered, calls', result) \<Rightarrow> ((DetermineMode, s) # entered, calls', result)))"
  by (simp add: run_from.simps [of _ _ DetermineMode] route_conversation_mode_def
      split: sum.splits)

lemma update_therapeutic_assessment_with_analyzer:
  "update_therapeutic_assessment_with analyzer_detect_crisis a t
     = Inr (update_therapeutic_assessment a t)"
  by (cases "detect_crisis t")
    (simp add: update_therapeutic_assessment_with_def update_therapeutic_assessment_def
      analyzer_detect_crisis_def Let_def)

lemma update_therapeutic_raises:
  "d (current_message s) = Inl err \<Longrightarrow> update_therapeutic d calls s = (calls, Inl err)"
  by (simp add: update_therapeutic_def update_therapeutic_assessment_with_def)

lemma run_from_UpdateTherapeutic:
  "run_from e analyzer_detect_crisis UpdateTherapeutic calls s =
     (case run_from e analyzer_detect_crisis DetermineMode calls
             (s\<lparr>therapeutic_assessment :=
                  update_therapeutic_assessment (therapeutic_assessment s) (current_message s)\<rparr>) of
        (entered, calls', result) \<Rightarrow> ((UpdateTherapeutic, s) # entered, calls', result))"
  by (simp add: run_from.simps [of _ _ UpdateTherapeutic] update_therapeutic_def
      update_therapeutic_assessment_with_analyzer)

text \<open>
  Claim C9. When the generation call raises, \<open>_generate_response\<close> still returns: the
  response is the fixed fallback text and the confidence 0.3; when the call succeeds the
  response is the generated text and the confidence 0.8. Either way the run goes on to
  the adaptation node and, when that node returns (as it does on a first turn, where it
  does nothing), to the memory node, which hands the turn with that response to
  \<open>add_conversation\<close>.
\<close>

theorem generate_response_failure_continues:
  "(llm_invoke e s = Inl err \<longrightarrow>
      generate_response e s = s\<lparr>response := fallback_response, confidence := 0.3\<rparr>)
   \<and> (llm_invoke e s = Inr generated \<longrightarrow>
      generate_response e s = s\<lparr>response := generated, confidence := 0.8\<rparr>)
   \<and> take 2 (fst (run_from e d GenerateResponse calls s))
       = [(GenerateResponse, s), (ApplySeal, generate_response e s)]
   \<and> (apply_seal_adaptation e (generate_response e s) = Inr s' \<longrightarrow>
        map fst (fst (run_from e d GenerateResponse calls s))
          = [GenerateResponse, ApplySeal, UpdateMemory]
        \<and> fst (snd (run_from e d GenerateResponse calls s))
          = calls @ [AddConversation (session_id s) (current_message s)
                       (response (generate_response e s)) (turn_metadata_of s')])
   \<and> (conversation_history s = [] \<longrightarrow>
        apply_seal_adaptation e (generate_response e s) = Inr (generate_response e s))"
proof -
  have two: "take 2 (fst (run_from e d GenerateResponse calls s))
      = [(GenerateResponse, s), (ApplySeal, generate_response e s)]"
    by (simp add: run_from_GenerateResponse run_from_ApplySeal split: sum.splits)
  have recorded: "map fst (fst (run_from e d GenerateResponse calls s))
          = [GenerateResponse, ApplySeal, UpdateMemory]
        \<and> fst (snd (run_from e d GenerateResponse calls s))
          = calls @ [AddConversation (session_id s) (current_message s)
                       (response (generate_response e s)) (turn_metadata_of s')]"
    if "apply_seal_adaptation e (generate_response e s) = Inr s'"
    using that apply_seal_adaptation_keeps [OF that]
    by (simp add: run_from_GenerateResponse run_from_ApplySeal generate_response_keeps)
  have first: "apply_seal_adaptation e (generate_response e s) = Inr (generate_response e s)"
    if "conversation_history s = []"
    using that by (simp add: apply_seal_adaptation_first_turn generate_response_keeps)
  from two recorded first show ?thesis
    by (simp add: generate_response_cases)
qed

theorem generate_response_failure_continues_witness:
  "llm_invoke failing_env (initial_state ''hello'' []) = Inl (CollaboratorError ''llm'')
   \<and> conversation_history (initial_state ''hello'' []) = []
   \<and> response (generate_response failing_env (initial_state ''hello'' [])) = fallback_response
   \<and> confidence (generate_response failing_env (initial_state ''hello'' [])) = 0.3
   \<and> map fst (fst (run_from failing_env analyzer_detect_crisis GenerateResponse []
                      (initial_state ''hello'' [])))
       = [GenerateResponse, ApplySeal, UpdateMemory]
   \<and> fst (snd (run_from failing_env analyzer_detect_crisis GenerateResponse []
                  (initial_state ''hello'' [])))
       = [AddConversation ''s1'' ''hello'' fallback_response
            (turn_metadata_of (generate_response failing_env (initial_state ''hello'' [])))]"
proof -
  let ?s = "initial_state ''hello'' []"
  let ?g = "generate_response failing_env ?s"
  have a: "llm_invoke failing_env ?s = Inl (CollaboratorError ''llm'')"
    by (simp add: failing_env_def)
  have b: "conversation_history ?s = []" "session_id ?s = ''s1''" "current_message ?s = ''hello''"
    by (simp_all add: initial_state_def)
  note c = generate_response_failure_continues
    [of failing_env ?s "CollaboratorError ''llm''" _ analyzer_detect_crisis "[]" ?g]
  from c a have g: "?g = ?s\<lparr>response := fallback_response, confidence := 0.3\<rparr>"
    by blast
  from c b(1) have seal: "apply_seal_adaptation failing_env ?g = Inr ?g"
    by blast
  with c have run:
    "map fst (fst (run_from failing_env analyzer_detect_crisis GenerateResponse [] ?s))
       = [GenerateResponse, ApplySeal, UpdateMemory]"
    "fst (snd (run_from failing_env analyzer_detect_crisis GenerateResponse [] ?s))
       = [] @ [AddConversation (session_id ?s) (current_message ?s) (response ?g)
                 (turn_metadata_of ?g)]"
    by blast+
  have r: "response ?g = fallback_response" "confidence ?g = 0.3"
    by (simp_all add: g)
  from a b(1) r run(1) show ?thesis
    by (simp add: run(2) b(2,3))
qed

lemma determine_mode_with_analyzer:
  "determine_mode_with analyzer_detect_crisis s = determine_mode s"
  by (simp add: determine_mode_def)

lemma run_from_crisis:
  assumes "\<exists>p\<in>set crisis_indicators. sublist p (lower (current_message st))"
  shows "fst (run_from e analyzer_detect_crisis UpdateTherapeutic calls st) =
     [(UpdateTherapeutic, st),
      (DetermineMode, st\<lparr>therapeutic_assessment :=
         update_therapeutic_assessment (therapeutic_assessment st) (current_message st)\<rparr>),
      (GenerateResponse, st\<lparr>therapeutic_assessment :=
         update_therapeutic_assessment (therapeutic_assessment st) (current_message st),
         conversation_mode := CRISIS\<rparr>),
      (ApplySeal, generate_response e (st\<lparr>therapeutic_assessment :=
         update_therapeutic_assessment (therapeutic_assessment st) (current_message st),
         conversation_mode := CRISIS\<rparr>))]
     @ (case apply_seal_adaptation e (generate_response e (st\<lparr>therapeutic_assessment :=
               update_therapeutic_assessment (therapeutic_assessment st) (current_message st),
               conversation_mode := CRISIS\<rparr>)) of
          Inl err \<Rightarrow> []
        | Inr st4 \<Rightarrow> [(UpdateMemory, st4)])"
proof -
  let ?st1 = "st\<lparr>therapeutic_assessment :=
                update_therapeutic_assessment (therapeutic_assessment st) (current_message st)\<rparr>"
  have "determine_mode ?st1 = Inr (?st1\<lparr>conversation_mode := CRISIS\<rparr>)"
    using assms by (simp add: determine_mode_chain)
  then show ?thesis
    by (simp add: run_from_UpdateTherapeutic run_from_DetermineMode determine_mode_with_analyzer
        run_from_GenerateResponse run_from_ApplySeal split: sum.splits)
qed

lemma run_from_no_crisis:
  assumes "\<not> (\<exists>p\<in>set crisis_indicators. sublist p (lower (current_message st)))"
  shows "\<exists>st2 st3. take 4 (fst (run_from e analyzer_detect_crisis UpdateTherapeutic calls st))
           = [(UpdateTherapeutic, st),
              (DetermineMode, st\<lparr>therapeutic_assessment :=
                 update_therapeutic_assessment (therapeutic_assessment st) (current_message st)\<rparr>),
              (GetContext, st2), (GenerateResponse, st3)]
         \<and> conversation_mode st2 \<noteq> CRISIS
         \<and> conversation_history st2 = conversation_history st
         \<and> get_context st2 = Inr st3"
proof -
  let ?st1 = "st\<lparr>therapeutic_assessment :=
                update_therapeutic_assessment (therapeutic_assessment st) (current_message st)\<rparr>"
  obtain mode where m: "determine_mode ?st1 = Inr (?st1\<lparr>conversation_mode := mode\<rparr>)"
      and nc: "mode \<noteq> CRISIS"
    using assms by (simp add: determine_mode_chain)
  from nc have target: "mode_target mode = GetContext"
    by (cases mode) simp_all
  obtain st3 where g: "get_context (?st1\<lparr>conversation_mode := mode\<rparr>) = Inr st3"
    by (simp add: get_context_result)
  have "take 4 (fst (run_from e analyzer_detect_crisis UpdateTherapeutic calls st))
          = [(UpdateTherapeutic, st), (DetermineMode, ?st1),
             (GetContext, ?st1\<lparr>conversation_mode := mode\<rparr>), (GenerateResponse, st3)]"
    using m target g
    by (simp add: run_from_UpdateTherapeutic run_from_DetermineMode determine_mode_with_analyzer
        run_from_GetContext run_from_GenerateResponse split: prod.splits)
  with nc g show ?thesis
    by auto
qed

lemma run_from_invariant:
  "\<forall>n calls s calls' s'. run_node e d n calls s = (calls', Inr s') \<longrightarrow> I s \<longrightarrow> I s'
   \<Longrightarrow> I st \<Longrightarrow> (m, x) \<in> set (fst (run_from e d n calls st)) \<Longrightarrow> I x"
proof (induction e d n calls st rule: run_from.induct)
  case (1 e d n calls state)
  note step = "1.prems"(1)
  obtain calls' r where rn: "run_node e d n calls state = (calls', r)"
    by (cases "run_node e d n calls state") auto
  show ?case
  proof (cases r)
    case (Inl err)
    with rn "1.prems"(2,3) show ?thesis
      by (simp add: run_from.simps [of e d n])
  next
    case (Inr state')
    have I': "I state'"
      using step rn Inr "1.prems"(2) by blast
    show ?thesis
    proof (cases "next_node n state'")
      case None
      with rn Inr "1.prems"(2,3) show ?thesis
        by (simp add: run_from.simps [of e d n])
    next
      case (Some n')
      from "1.prems"(3) rn Inr Some
      have "(m, x) = (n, state) \<or> (m, x) \<in> set (fst (run_from e d n' calls' state'))"
        by (auto simp: run_from.simps [of e d n] split: prod.splits)
      then show ?thesis
      proof
        assume "(m, x) = (n, state)"
        with "1.prems"(2) show ?thesis by simp
      next
        assume "(m, x) \<in> set (fst (run_from e d n' calls' state'))"
        then show ?thesis
          by (rule "1.IH" [OF rn [symmetric] Inr Some step I'])
      qed
    qed
  qed
qed

text \<open>
  What a node does to the stored stage: it leaves \<open>graph_context\<close> and the history as
  they are, \<open>get_context\<close> apart, which stores \<open>greeting\<close> or \<open>initial\<close>.
\<close>

lemma run_node_stage:
  assumes "run_node e d n calls s = (calls', Inr s')"
  shows "conversation_history s' = conversation_history s
         \<and> (if n = GetContext
             then stored_stage s'
                    = Some (if conversation_history s = [] then ''greeting'' else ''initial'')
             else graph_context s' = graph_context s)"
proof (cases n)
  case AnalyzeInput
  with assms show ?thesis
    by (auto simp: analyze_input_def split: sum.splits)
next
  case UpdatePersonality
  with assms show ?thesis
    by (auto simp: update_personality_def Let_def split: sum.splits)
next
  case UpdateTherapeutic
  with assms show ?thesis
    by (auto simp: update_therapeutic_def split: sum.splits)
next
  case DetermineMode
  with assms show ?thesis
    by (auto simp: determine_mode_with_def split: sum.splits prod.splits if_splits)
next
  case GetContext
  with assms show ?thesis
    by (auto simp: get_context_result stored_stage_def)
next
  case GenerateResponse
  with assms show ?thesis
    by (auto simp: generate_response_keeps)
next
  case ApplySeal
  with assms show ?thesis
    by (auto simp: apply_seal_adaptation_keeps)
next
  case UpdateMemory
  with assms show ?thesis
    by (auto simp: update_memory_def Let_def split: sum.splits option.splits)
qed

lemma run_from_stage:
  assumes "(m, x) \<in> set (fst (run_from e d n calls st))"
  shows "conversation_history x = conversation_history st
         \<and> (stored_stage x = stored_stage st
            \<or> stored_stage x
                = Some (if conversation_history st = [] then ''greeting'' else ''initial''))"
proof -
  let ?I = "\<lambda>x. conversation_history x = conversation_history st
         \<and> (stored_stage x = stored_stage st
            \<or> stored_stage x
                = Some (if conversation_history st = [] then ''greeting'' else ''initial''))"
  have "\<forall>n calls s calls' s'. run_node e d n calls s = (calls', Inr s') \<longrightarrow> ?I s \<longrightarrow> ?I s'"
  proof (intro allI impI)
    fix n calls s calls' s'
    assume r: "run_node e d n calls s = (calls', Inr s')" and i: "?I s"
    from run_node_stage [OF r] i show "?I s'"
      by (cases "n = GetContext") (auto simp: stored_stage_def)
  qed
  moreover have "?I st"
    by simp
  ultimately show ?thesis
    using assms by (rule run_from_invariant [where I = ?I])
qed

lemma run_from_crisis_graph_context:
  assumes "\<exists>p\<in>set crisis_indicators. sublist p (lower (current_message st))"
    and "(m, x) \<in> set (fst (run_from e analyzer_detect_crisis UpdateTherapeutic calls st))"
  shows "m \<noteq> GetContext \<and> graph_context x = graph_context st"
  using assms(2) unfolding run_from_crisis [OF assms(1)]
  by (auto simp: generate_response_keeps apply_seal_adaptation_keeps(1) split: sum.splits)

text \<open>
  The stages one by one. The conditional edge after \<open>determine_mode\<close> leads to
  \<open>generate_response\<close> exactly when the mode is \<open>CRISIS\<close> and to \<open>get_context\<close>, which
  leads on to \<open>generate_response\<close>, for every other mode. A run that is started at
  \<open>update_therapeutic\<close> on a message with a crisis phrase enters \<open>determine_mode\<close>,
  \<open>generate_response\<close> and \<open>apply_seal\<close> and never \<open>get_context\<close>, leaves
  \<open>graph_context\<close> alone, appends one risk factor and sets a response.
\<close>

lemma crisis_route_by_stage:
  "(next_node DetermineMode s = Some GenerateResponse \<longleftrightarrow> conversation_mode s = CRISIS)
   \<and> (conversation_mode s \<noteq> CRISIS \<longrightarrow> next_node DetermineMode s = Some GetContext)
   \<and> next_node GetContext s = Some GenerateResponse
   \<and> ((\<exists>p\<in>set crisis_indicators. sublist p (lower (current_message st))) \<longrightarrow>
        take 4 (map fst (fst (run_from e analyzer_detect_crisis UpdateTherapeutic calls st)))
          = [UpdateTherapeutic, DetermineMode, GenerateResponse, ApplySeal]
        \<and> (\<forall>(n, x)\<in>set (fst (run_from e analyzer_detect_crisis UpdateTherapeutic calls st)).
              n \<noteq> GetContext \<and> graph_context x = graph_context st)
        \<and> (\<exists>st2 st3 tag.
              (GenerateResponse, st2)
                 \<in> set (fst (run_from e analyzer_detect_crisis UpdateTherapeutic calls st))
              \<and> (ApplySeal, st3)
                 \<in> set (fst (run_from e analyzer_detect_crisis UpdateTherapeutic calls st))
              \<and> conversation_mode st2 = CRISIS
              \<and> risk_factors (therapeutic_assessment st2)
                  = risk_factors (therapeutic_assessment st) @ [tag]
              \<and> st3 = generate_response e st2
              \<and> response st3 = (case llm_invoke e st2 of
                                  Inr generated \<Rightarrow> generated
                                | Inl err \<Rightarrow> fallback_response)))
   \<and> (\<not> (\<exists>p\<in>set crisis_indicators. sublist p (lower (current_message st))) \<longrightarrow>
        take 4 (map fst (fst (run_from e analyzer_detect_crisis UpdateTherapeutic calls st)))
          = [UpdateTherapeutic, DetermineMode, GetContext, GenerateResponse])"
proof -
  have edges: "(next_node DetermineMode s = Some GenerateResponse \<longleftrightarrow> conversation_mode s = CRISIS)
      \<and> (conversation_mode s \<noteq> CRISIS \<longrightarrow> next_node DetermineMode s = Some GetContext)
      \<and> next_node GetContext s = Some GenerateResponse"
    by (cases "conversation_mode s") (simp_all add: route_conversation_mode_def)
  let ?run = "fst (run_from e analyzer_detect_crisis UpdateTherapeutic calls st)"
  let ?st2 = "st\<lparr>therapeutic_assessment :=
         update_therapeutic_assessment (therapeutic_assessment st) (current_message st),
         conversation_mode := CRISIS\<rparr>"
  have crisis: "take 4 (map fst ?run) = [UpdateTherapeutic, DetermineMode, GenerateResponse, ApplySeal]
        \<and> (\<forall>(n, x)\<in>set ?run. n \<noteq> GetContext \<and> graph_context x = graph_context st)
        \<and> (\<exists>st2 st3 tag.
              (GenerateResponse, st2) \<in> set ?run \<and> (ApplySeal, st3) \<in> set ?run
              \<and> conversation_mode st2 = CRISIS
              \<and> risk_factors (therapeutic_assessment st2)
                  = risk_factors (therapeutic_assessment st) @ [tag]
              \<and> st3 = generate_response e st2
              \<and> response st3 = (case llm_invoke e st2 of
                                  Inr generated \<Rightarrow> generated
                                | Inl err \<Rightarrow> fallback_response))"
    if c: "\<exists>p\<in>set crisis_indicators. sublist p (lower (current_message st))"
  proof (intro conjI)
    show "take 4 (map fst ?run) = [UpdateTherapeutic, DetermineMode, GenerateResponse, ApplySeal]"
      by (simp add: run_from_crisis [OF c])
    show "\<forall>(n, x)\<in>set ?run. n \<noteq> GetContext \<and> graph_context x = graph_context st"
      using run_from_crisis_graph_context [OF c] by blast
    have "(GenerateResponse, ?st2) \<in> set ?run" "(ApplySeal, generate_response e ?st2) \<in> set ?run"
      by (simp_all add: run_from_crisis [OF c])
    moreover have "risk_factors (therapeutic_assessment ?st2)
        = risk_factors (therapeutic_assessment st)
            @ [''Crisis indicators detected: ''
                 @ str_float (snd (detect_crisis (current_message st)))]"
      using c by (simp add: update_therapeutic_assessment_fields(4) fst_detect_crisis)
    moreover have "conversation_mode ?st2 = CRISIS"
      by simp
    ultimately show "\<exists>st2 st3 tag.
        (GenerateResponse, st2) \<in> set ?run \<and> (ApplySeal, st3) \<in> set ?run
        \<and> conversation_mode st2 = CRISIS
        \<and> risk_factors (therapeutic_assessment st2)
            = risk_factors (therapeutic_assessment st) @ [tag]
        \<and> st3 = generate_response e st2
        \<and> response st3 = (case llm_invoke e st2 of
                            Inr generated \<Rightarrow> generated
                          | Inl err \<Rightarrow> fallback_response)"
      using generate_response_text [of e ?st2] by blast
  qed
  have other: "take 4 (map fst ?run) = [UpdateTherapeutic, DetermineMode, GetContext, GenerateResponse]"
    if n: "\<not> (\<exists>p\<in>set crisis_indicators. sublist p (lower (current_message st)))"
  proof -
    from run_from_no_crisis [OF n, of e calls] obtain st2 st3 where
      "take 4 ?run = [(UpdateTherapeutic, st),
         (DetermineMode, st\<lparr>therapeutic_assessment :=
            update_therapeutic_assessment (therapeutic_assessment st) (current_message st)\<rparr>),
         (GetContext, st2), (GenerateResponse, st3)]"
      by blast
    then have "map fst (take 4 ?run)
        = [UpdateTherapeutic, DetermineMode, GetContext, GenerateResponse]"
      by simp
    then show ?thesis
      by (simp add: take_map)
  qed
  from edges crisis other show ?thesis
    by blast
qed

text \<open>
  Claim C10. \<open>_get_context\<close> always asks the conversation graph for the stage after
  \<open>initial\<close>, whose only edge is guarded by \<open>first_message\<close>: the stage it stores is
  \<open>greeting\<close> exactly when the history is empty and \<open>initial\<close> otherwise. No other node
  writes \<open>graph_context\<close>, so at every node of every run the stored stage is the one the
  run started with (none, for the empty dictionary of a fresh state) or one of these
  two, and on a turn without a crisis phrase the state that reaches
  \<open>generate_response\<close> holds one of these two.
\<close>

theorem stored_stage_greeting_or_initial:
  "get_next_state ''initial'' st
     = Inr (if conversation_history st = [] then ''greeting'' else ''initial'')
   \<and> (\<exists>st'. get_context st = Inr st'
         \<and> stored_stage st'
             = Some (if conversation_history st = [] then ''greeting'' else ''initial''))
   \<and> (\<forall>(n, x)\<in>set (fst (run_from e d n0 calls st)).
         stored_stage x = stored_stage st
         \<or> stored_stage x
             = Some (if conversation_history st = [] then ''greeting'' else ''initial''))
   \<and> (\<not> (\<exists>p\<in>set crisis_indicators. sublist p (lower (current_message st))) \<longrightarrow>
        (\<exists>x. (GenerateResponse, x)
                \<in> set (fst (run_from e analyzer_detect_crisis UpdateTherapeutic calls st))
             \<and> stored_stage x
                 = Some (if conversation_history st = [] then ''greeting'' else ''initial'')))"
proof -
  have node: "\<exists>st'. get_context st = Inr st'
         \<and> stored_stage st'
             = Some (if conversation_history st = [] then ''greeting'' else ''initial'')"
    by (simp add: get_context_result stored_stage_def)
  have runs: "\<forall>(n, x)\<in>set (fst (run_from e d n0 calls st)).
         stored_stage x = stored_stage st
         \<or> stored_stage x
             = Some (if conversation_history st = [] then ''greeting'' else ''initial'')"
    using run_from_stage [of _ _ e d n0 calls st] by blast
  have turn: "\<exists>x. (GenerateResponse, x)
                \<in> set (fst (run_from e analyzer_detect_crisis UpdateTherapeutic calls st))
             \<and> stored_stage x
                 = Some (if conversation_history st = [] then ''greeting'' else ''initial'')"
    if n: "\<not> (\<exists>p\<in>set crisis_indicators. sublist p (lower (current_message st)))"
  proof -
    let ?run = "fst (run_from e analyzer_detect_crisis UpdateTherapeutic calls st)"
    from run_from_no_crisis [OF n, of e calls] obtain st2 st3 where
      t: "take 4 ?run = [(UpdateTherapeutic, st),
         (DetermineMode, st\<lparr>therapeutic_assessment :=
            update_therapeutic_assessment (therapeutic_assessment st) (current_message st)\<rparr>),
         (GetContext, st2), (GenerateResponse, st3)]"
      and h: "conversation_history st2 = conversation_history st"
      and g: "get_context st2 = Inr st3"
      by blast
    have "(GenerateResponse, st3) \<in> set (take 4 ?run)"
      by (simp add: t)
    then have "(GenerateResponse, st3) \<in> set ?run"
      by (rule in_set_takeD)
    moreover have "stored_stage st3
        = Some (if conversation_history st = [] then ''greeting'' else ''initial'')"
      using g h by (auto simp: get_context_result stored_stage_def)
    ultimately show ?thesis
      by blast
  qed
  from get_next_state_initial [of st] node runs turn show ?thesis
    by blast
qed

theorem stored_stage_greeting_or_initial_witness:
  "get_next_state ''initial'' (initial_state ''hello'' []) = Inr ''greeting''
   \<and> get_next_state ''initial''
        (initial_state ''hello'' [\<lparr>role = ''user'', content = ''hi''\<rparr>]) = Inr ''initial''
   \<and> (\<exists>st'. get_context (initial_state ''hello'' []) = Inr st'
          \<and> stored_stage st' = Some ''greeting'')
   \<and> (\<exists>x. (GenerateResponse, x)
             \<in> set (fst (run_from failing_env analyzer_detect_crisis UpdateTherapeutic []
                           (initial_state ''hello'' [])))
          \<and> stored_stage x = Some ''greeting'')"
proof -
  have n: "\<not> (\<exists>p\<in>set crisis_indicators. sublist p (lower ''hello''))"
    by code_simp
  have m: "current_message (initial_state t h) = t" "conversation_history (initial_state t h) = h"
    "stored_stage (initial_state t h) = None" for t h
    by (simp_all add: initial_state_def stored_stage_def)
  from n
    stored_stage_greeting_or_initial
      [where st = "initial_state ''hello'' []" and e = failing_env
         and d = analyzer_detect_crisis and ?n0.0 = UpdateTherapeutic and calls = "[]"]
    stored_stage_greeting_or_initial
      [where st = "initial_state ''hello'' [\<lparr>role = ''user'', content = ''hi''\<rparr>]"
         and e = failing_env and d = analyzer_detect_crisis and ?n0.0 = UpdateTherapeutic
         and calls = "[]"]
  show ?thesis
    unfolding m by simp
qed

section \<open>A whole turn\<close>

text \<open>
  From the entry point every run ends in an exception: \<open>analyze_input\<close> may fail with its
  collaborators, and \<open>update_personality\<close> calls \<open>update_personality_profile\<close>, which
  raises \<open>NameError\<close>. No run from the entry point reaches \<open>update_therapeutic\<close>. The
  \<open>try\<close> of \<open>process_message\<close> would answer with the apology, but \<open>process_message\<close>
  raises \<open>NameError\<close> itself before it reaches the \<open>try\<close>.
\<close>

lemma update_personality_raises:
  "update_personality e calls s = (calls, Inl (NameError ''datetime''))"
  by (simp add: update_personality_def update_personality_profile_def datetime_now_def
      personality_analyzer_globals_def Let_def)

lemma run_from_UpdatePersonality:
  "run_from e d UpdatePersonality calls s
     = ([(UpdatePersonality, s)], calls, Inl (NameError ''datetime''))"
  by (simp add: run_from.simps [of _ _ UpdatePersonality] update_personality_raises)

lemma workflow_ainvoke_trace:
  "workflow_ainvoke e d calls s =
     (case analyze_input e calls s of
        (calls', Inl err) \<Rightarrow> ([(AnalyzeInput, s)], calls', Inl err)
      | (calls', Inr s') \<Rightarrow>
          ([(AnalyzeInput, s), (UpdatePersonality, s')], calls', Inl (NameError ''datetime'')))"
  by (simp add: workflow_ainvoke_def run_from.simps [of _ _ AnalyzeInput]
      run_from_UpdatePersonality split: prod.splits sum.splits)

lemma workflow_ainvoke_raises:
  "\<exists>err. snd (snd (workflow_ainvoke e d calls s)) = Inl err"
  by (simp add: workflow_ainvoke_trace split: prod.splits sum.splits)

lemma workflow_ainvoke_nodes:
  "fst ` set (fst (workflow_ainvoke e d calls s)) \<subseteq> {AnalyzeInput, UpdatePersonality}"
  by (simp add: workflow_ainvoke_trace split: prod.splits sum.splits)

lemma process_message_try_apology:
  "process_message_try e d calls s = apology"
  using workflow_ainvoke_raises [of e d calls s]
  by (cases "workflow_ainvoke e d calls s") (auto simp: process_message_try_def)

lemma process_message_raises:
  "process_message e d calls user_message session user = Inl (NameError ''PersonalityProfile'')"
  by (simp add: process_message_def global_name_def workflow_globals_def)

lemma workflow_ainvoke_failing_env:
  "workflow_ainvoke failing_env d [] (initial_state t [])
     = ([(AnalyzeInput, initial_state t []),
         (UpdatePersonality,
            (initial_state t [])
              \<lparr>memory_context := \<lparr>total_sessions = Some 0, relationship_strength = Some 0\<rparr>,
               context_vectors := []\<rparr>)],
        [], Inl (NameError ''datetime''))"
  by (simp add: workflow_ainvoke_trace analyze_input_def failing_env_def)

text \<open>
  Claim C4, where the code departs from it. The edges are as the claim has them
  (\<open>crisis_route_by_stage\<close>), but no turn gets that far: for the message
  \<open>I feel hopeless and want to die\<close>, \<open>process_message\<close> raises \<open>NameError\<close> while it
  builds the state, and a run of the graph from its entry point on that state enters
  \<open>analyze_input\<close> and \<open>update_personality\<close> and ends there with \<open>NameError\<close>:
  \<open>update_therapeutic\<close>, \<open>determine_mode\<close> and \<open>generate_response\<close> are never entered,
  no risk factor is appended and no response is produced.
\<close>

theorem crisis_turn_raises_before_update_therapeutic:
  "process_message failing_env analyzer_detect_crisis []
       ''I feel hopeless and want to die'' ''s1'' ''u1''
     = Inl (NameError ''PersonalityProfile'')
   \<and> map fst (fst (workflow_ainvoke failing_env analyzer_detect_crisis []
                      (initial_state ''I feel hopeless and want to die'' [])))
     = [AnalyzeInput, UpdatePersonality]
   \<and> map (\<lambda>(n, x). risk_factors (therapeutic_assessment x))
        (fst (workflow_ainvoke failing_env analyzer_detect_crisis []
                (initial_state ''I feel hopeless and want to die'' [])))
     = [[], []]
   \<and> map (\<lambda>(n, x). response x)
        (fst (workflow_ainvoke failing_env analyzer_detect_crisis []
                (initial_state ''I feel hopeless and want to die'' [])))
     = [[], []]
   \<and> snd (snd (workflow_ainvoke failing_env analyzer_detect_crisis []
                  (initial_state ''I feel hopeless and want to die'' [])))
     = Inl (NameError ''datetime'')"
  unfolding process_message_raises workflow_ainvoke_failing_env
  by (simp add: initial_state_def default_assessment_def)

section \<open>A crisis detector that raises\<close>

lemma determine_mode_with_raises:
  "detector (current_message st) = Inl err \<Longrightarrow> determine_mode_with detector st = Inl err"
  by (simp add: determine_mode_with_def)

text \<open>
  While the detector raises on the message, no node that returns changes the message
  or the mode: the two nodes that call the detector do not return.
\<close>

lemma run_node_mode_kept:
  assumes "run_node e d n calls s = (calls', Inr s')"
    and "d (current_message s) = Inl err"
  shows "current_message s' = current_message s \<and> conversation_mode s' = conversation_mode s"
proof (cases n)
  case AnalyzeInput
  with assms show ?thesis
    by (auto simp: analyze_input_def split: sum.splits)
next
  case UpdatePersonality
  with assms show ?thesis
    by (auto simp: update_personality_def Let_def split: sum.splits)
next
  case UpdateTherapeutic
  with assms show ?thesis
    by (simp add: update_therapeutic_raises)
next
  case DetermineMode
  with assms show ?thesis
    by (simp add: determine_mode_with_raises)
next
  case GetContext
  with assms show ?thesis
    by (auto simp: get_context_result)
next
  case GenerateResponse
  with assms show ?thesis
    by (auto simp: generate_response_keeps)
next
  case ApplySeal
  with assms show ?thesis
    by (auto simp: apply_seal_adaptation_keeps)
next
  case UpdateMemory
  with assms show ?thesis
    by (auto simp: update_memory_def Let_def split: sum.splits option.splits)
qed

lemma run_from_mode_kept:
  assumes "d (current_message st) = Inl err"
    and "(m, x) \<in> set (fst (run_from e d n calls st))"
  shows "conversation_mode x = conversation_mode st"
proof -
  let ?I = "\<lambda>x. current_message x = current_message st
                \<and> conversation_mode x = conversation_mode st"
  have "\<forall>n calls s calls' s'. run_node e d n calls s = (calls', Inr s') \<longrightarrow> ?I s \<longrightarrow> ?I s'"
  proof (intro allI impI)
    fix n calls s calls' s'
    assume r: "run_node e d n calls s = (calls', Inr s')" and i: "?I s"
    from i assms(1) have "d (current_message s) = Inl err"
      by simp
    from run_node_mode_kept [OF r this] i show "?I s'"
      by simp
  qed
  moreover have "?I st"
    by simp
  ultimately have "?I x"
    using assms(2) by (rule run_from_invariant [where I = ?I])
  then show ?thesis
    by simp
qed

lemma run_from_detector_raises:
  assumes "d (current_message st) = Inl err"
    and "n \<in> {AnalyzeInput, UpdatePersonality, UpdateTherapeutic, DetermineMode}"
  shows "fst ` set (fst (run_from e d n calls st))
           \<subseteq> {AnalyzeInput, UpdatePersonality, UpdateTherapeutic, DetermineMode}
         \<and> (\<exists>err'. snd (snd (run_from e d n calls st)) = Inl err')"
proof -
  consider "n = AnalyzeInput" | "n = UpdatePersonality" | "n = UpdateTherapeutic"
    | "n = DetermineMode"
    using assms(2) by blast
  then show ?thesis
  proof cases
    case 1
    have "run_from e d AnalyzeInput calls st = workflow_ainvoke e d calls st"
      by (simp add: workflow_ainvoke_def)
    with 1 show ?thesis
      by (simp add: workflow_ainvoke_trace split: prod.splits sum.splits)
  next
    case 2
    then show ?thesis
      by (simp add: run_from_UpdatePersonality)
  next
    case 3
    with assms(1) show ?thesis
      by (simp add: run_from.simps [of _ _ UpdateTherapeutic] update_therapeutic_raises)
  next
    case 4
    with assms(1) show ?thesis
      by (simp add: run_from_DetermineMode determine_mode_with_raises)
  qed
qed

text \<open>
  Claim C2, as the code has it. Nothing fails closed. \<open>_determine_mode\<close> has no handler
  around \<open>detect_crisis\<close>: when the detector raises, \<open>_determine_mode\<close> raises the same
  exception and returns no state, so it sets no mode. \<open>_update_therapeutic\<close>, which calls
  the same detector one node earlier, raises it too. In no run, from the entry point or
  from any other node, does the mode of the state change, and a run that starts at
  \<open>determine_mode\<close> or before it ends in an exception without entering
  \<open>generate_response\<close>.
\<close>

theorem detector_failure_propagates:
  "detector (current_message st) = Inl err \<longrightarrow>
     determine_mode_with detector st = Inl err
     \<and> update_therapeutic detector calls st = (calls, Inl err)
     \<and> (\<forall>(n, x)\<in>set (fst (run_from e detector n0 calls st)).
           conversation_mode x = conversation_mode st)
     \<and> (n0 \<in> {AnalyzeInput, UpdatePersonality, UpdateTherapeutic, DetermineMode} \<longrightarrow>
          GenerateResponse \<notin> fst ` set (fst (run_from e detector n0 calls st))
          \<and> (\<exists>err'. snd (snd (run_from e detector n0 calls st)) = Inl err'))"
proof (intro impI conjI)
  assume r: "detector (current_message st) = Inl err"
  show "determine_mode_with detector st = Inl err"
    using r by (rule determine_mode_with_raises)
  show "update_therapeutic detector calls st = (calls, Inl err)"
    using r by (rule update_therapeutic_raises)
  show "\<forall>(n, x)\<in>set (fst (run_from e detector n0 calls st)).
          conversation_mode x = conversation_mode st"
    using r run_from_mode_kept [where d = detector and st = st and err = err and e = e
        and n = n0 and calls = calls]
    by blast
next
  assume r: "detector (current_message st) = Inl err"
    and n: "n0 \<in> {AnalyzeInput, UpdatePersonality, UpdateTherapeutic, DetermineMode}"
  note ends = run_from_detector_raises
      [where d = detector and st = st and err = err and n = n0 and e = e and calls = calls]
  from ends r n
  show "GenerateResponse \<notin> fst ` set (fst (run_from e detector n0 calls st))"
    by auto
  from ends r n
  show "\<exists>err'. snd (snd (run_from e detector n0 calls st)) = Inl err'"
    by blast
qed

theorem detector_failure_propagates_witness:
  "failing_detector (current_message (initial_state ''I want to die'' []))
     = Inl (CollaboratorError ''detect_crisis'')
   \<and> determine_mode_with failing_detector (initial_state ''I want to die'' [])
     = Inl (CollaboratorError ''detect_crisis'')
   \<and> update_therapeutic failing_detector [] (initial_state ''I want to die'' [])
     = ([], Inl (CollaboratorError ''detect_crisis''))
   \<and> GenerateResponse
       \<notin> fst ` set (fst (run_from failing_env failing_detector AnalyzeInput []
                           (initial_state ''I want to die'' [])))
   \<and> (\<exists>err'. snd (snd (run_from failing_env failing_detector AnalyzeInput []
                           (initial_state ''I want to die'' []))) = Inl err')
   \<and> GenerateResponse
       \<notin> fst ` set (fst (run_from failing_env failing_detector UpdateTherapeutic []
                           (initial_state ''I want to die'' [])))"
proof -
  have r: "failing_detector (current_message (initial_state ''I want to die'' []))
      = Inl (CollaboratorError ''detect_crisis'')"
    by (simp add: failing_detector_def)
  from r
    detector_failure_propagates
      [where detector = failing_detector and st = "initial_state ''I want to die'' []"
         and err = "CollaboratorError ''detect_crisis''" and e = failing_env and calls = "[]"
         and ?n0.0 = AnalyzeInput]
    detector_failure_propagates
      [where detector = failing_detector and st = "initial_state ''I want to die'' []"
         and err = "CollaboratorError ''detect_crisis''" and e = failing_env and calls = "[]"
         and ?n0.0 = UpdateTherapeutic]
  show ?thesis
    by simp
qed

text \<open>
  The claim as the specification words it fails. On a message with a crisis phrase and
  a detector that raises, \<open>_determine_mode\<close> returns no state, so none in mode
  \<open>CRISIS\<close>; a run from \<open>determine_mode\<close> and a run from \<open>update_therapeutic\<close> both end
  at their first node with the detector's exception; a run from the entry point ends
  in \<open>update_personality\<close>; and \<open>process_message\<close> raises before it starts a run. No
  node enters \<open>generate_response\<close> and nothing is handled as a crisis.
\<close>

theorem detector_failure_counterexample:
  "failing_detector (current_message (initial_state ''I want to die'' []))
     = Inl (CollaboratorError ''detect_crisis'')
   \<and> determine_mode_with failing_detector (initial_state ''I want to die'' [])
     \<noteq> Inr ((initial_state ''I want to die'' [])\<lparr>conversation_mode := CRISIS\<rparr>)
   \<and> run_from failing_env failing_detector DetermineMode [] (initial_state ''I want to die'' [])
     = ([(DetermineMode, initial_state ''I want to die'' [])], [],
        Inl (CollaboratorError ''detect_crisis''))
   \<and> run_from failing_env failing_detector UpdateTherapeutic []
        (initial_state ''I want to die'' [])
     = ([(UpdateTherapeutic, initial_state ''I want to die'' [])], [],
        Inl (CollaboratorError ''detect_crisis''))
   \<and> map fst (fst (workflow_ainvoke failing_env failing_detector []
                      (initial_state ''I want to die'' [])))
     = [AnalyzeInput, UpdatePersonality]
   \<and> snd (snd (workflow_ainvoke failing_env failing_detector []
                  (initial_state ''I want to die'' [])))
     = Inl (NameError ''datetime'')
   \<and> process_message failing_env failing_detector [] ''I want to die'' ''s1'' ''u1''
     = Inl (NameError ''PersonalityProfile'')"
  by (simp add: failing_detector_def determine_mode_with_raises run_from_DetermineMode
      run_from.simps [of _ _ UpdateTherapeutic] update_therapeutic_raises
      workflow_ainvoke_failing_env process_message_raises)

end
